theory Spec2Isabelle
  imports Complex_Main "HOL-Library.AList"
begin

section \<open>Numbers and errors\<close>

text \<open>
  The program computes with Python floats.  Finite floats are idealised as reals (no
  rounding); the one non-finite value that the indicator columns routinely hold, the
  not-a-number of a warm-up window, is kept, because every comparison with it is false
  and the scorer's \<open>else\<close> branches therefore see it.
\<close>

datatype pyfloat = NaN | Val real

fun fgt :: "pyfloat \<Rightarrow> pyfloat \<Rightarrow> bool" where
  "fgt (Val a) (Val b) = (a > b)"
| "fgt _ _ = False"

fun flt :: "pyfloat \<Rightarrow> pyfloat \<Rightarrow> bool" where
  "flt (Val a) (Val b) = (a < b)"
| "flt _ _ = False"

fun fle :: "pyfloat \<Rightarrow> pyfloat \<Rightarrow> bool" where
  "fle (Val a) (Val b) = (a \<le> b)"
| "fle _ _ = False"

fun fadd :: "pyfloat \<Rightarrow> pyfloat \<Rightarrow> pyfloat" where
  "fadd (Val a) (Val b) = Val (a + b)"
| "fadd _ _ = NaN"

fun fsub :: "pyfloat \<Rightarrow> pyfloat \<Rightarrow> pyfloat" where
  "fsub (Val a) (Val b) = Val (a - b)"
| "fsub _ _ = NaN"

fun fmul :: "pyfloat \<Rightarrow> pyfloat \<Rightarrow> pyfloat" where
  "fmul (Val a) (Val b) = Val (a * b)"
| "fmul _ _ = NaN"

fun fhalf :: "pyfloat \<Rightarrow> pyfloat" where
  "fhalf (Val a) = Val (a / 2)"
| "fhalf NaN = NaN"

text \<open>The exceptions of the source that the modelled paths can raise.\<close>

datatype py_error =
    IndexError
  | KeyError string
  | AttributeError string
  | TypeError string
  | RuntimeError string
  | TradeException string

text \<open>\<open>xs.iloc[-k]\<close>: the k-th element from the end, IndexError when there is none.\<close>

definition iloc_neg :: "'a list \<Rightarrow> nat \<Rightarrow> py_error + 'a" where
  "iloc_neg xs k =
     (if 1 \<le> k \<and> k \<le> length xs then Inr (xs ! (length xs - k)) else Inl IndexError)"

section \<open>Signal scorer (analysis/technical\_analyzer.py, generate\_signal)\<close>

text \<open>
  A price bar (the columns of the fetched frame that the analyzer reads), and one row of
  the indicator frame: the bar with the indicator columns that \<open>generate_signal\<close> reads.
\<close>

record bar =
  High :: pyfloat
  Low :: pyfloat
  Close :: pyfloat
  Volume :: pyfloat

record row = bar +
  EMA_9 :: pyfloat
  SMA_20 :: pyfloat
  SMA_50 :: pyfloat
  RSI :: pyfloat
  MACD :: pyfloat
  MACD_Signal :: pyfloat
  BB_Middle :: pyfloat
  Volume_SMA :: pyfloat

record signal =
  direction :: int
  strength :: real
  buy_signals :: nat
  sell_signals :: nat

text \<open>
  \<open>if cond: buy_signals += 1 else: sell_signals += 1\<close> on the pair of counters
  \<open>(buy_signals, sell_signals)\<close>.
\<close>

definition vote :: "bool \<Rightarrow> nat \<times> nat \<Rightarrow> nat \<times> nat" where
  "vote c v = (if c then (fst v + 1, snd v) else (fst v, snd v + 1))"

text \<open>The nested momentum test of lines 78 to 86, True where the branch adds a buy.\<close>

definition momentum_buy :: "pyfloat \<Rightarrow> bool" where
  "momentum_buy r =
     (if fle (Val 30) r \<and> fle r (Val 70) then (if fgt r (Val 50) then True else False)
      else if flt r (Val 30) then True
      else False)"

definition total_signals :: real where
  "total_signals = 7"

definition volume_vote :: "row list \<Rightarrow> row \<Rightarrow> nat \<times> nat \<Rightarrow> py_error + nat \<times> nat" where
  "volume_vote data last_row v =
     (if fgt (Volume last_row) (Volume_SMA last_row) then
        (case iloc_neg data 2 of
           Inl e \<Rightarrow> Inl e
         | Inr prev \<Rightarrow> Inr (vote (fgt (Close last_row) (Close prev)) v))
      else Inr v)"

definition generate_signal :: "row list \<Rightarrow> py_error + signal" where
  "generate_signal data =
     (case iloc_neg data 1 of
        Inl e \<Rightarrow> Inl e
      | Inr last_row \<Rightarrow>
          (let v0 = (0, 0);
               v1 = vote (fgt (EMA_9 last_row) (SMA_20 last_row)) v0;
               v2 = vote (fgt (SMA_20 last_row) (SMA_50 last_row)) v1;
               v3 = vote (momentum_buy (RSI last_row)) v2;
               v4 = vote (fgt (MACD last_row) (MACD_Signal last_row)) v3;
               v5 = vote (fgt (Close last_row) (BB_Middle last_row)) v4
           in case volume_vote data last_row v5 of
                Inl e \<Rightarrow> Inl e
              | Inr v6 \<Rightarrow>
                  Inr \<lparr>direction = (if fst v6 > snd v6 then 1
                                    else if snd v6 > fst v6 then - 1 else 0),
                       strength = real (max (fst v6) (snd v6)) / total_signals,
                       buy_signals = fst v6,
                       sell_signals = snd v6\<rparr>))"

subsection \<open>The scorer as the specification words it\<close>

text \<open>
  A well-defined latest snapshot: every indicator of the latest bar is a number.  The
  prior bar's close is kept as the frame holds it.
\<close>

record snapshot =
  ema9 :: real
  sma20 :: real
  sma50 :: real
  rsi :: real
  macd_line :: real
  macd_sig :: real
  close_px :: real
  bb_mid :: real
  vol :: real
  vol_avg :: real
  high_px :: real
  low_px :: real

definition row_of :: "snapshot \<Rightarrow> row" where
  "row_of s = \<lparr>High = Val (high_px s), Low = Val (low_px s),
               Close = Val (close_px s), Volume = Val (vol s), EMA_9 = Val (ema9 s),
               SMA_20 = Val (sma20 s), SMA_50 = Val (sma50 s), RSI = Val (rsi s),
               MACD = Val (macd_line s), MACD_Signal = Val (macd_sig s),
               BB_Middle = Val (bb_mid s), Volume_SMA = Val (vol_avg s)\<rparr>"

definition spec_category_buys :: "snapshot \<Rightarrow> bool list" where
  "spec_category_buys s =
     [ema9 s > sma20 s,
      sma20 s > sma50 s,
      (30 \<le> rsi s \<and> rsi s \<le> 70 \<and> rsi s > 50) \<or> rsi s < 30,
      macd_line s > macd_sig s,
      close_px s > bb_mid s]"

definition spec_votes :: "snapshot \<Rightarrow> pyfloat \<Rightarrow> bool list" where
  "spec_votes s prior_close =
     spec_category_buys s @
     (if vol s > vol_avg s then [fgt (Val (close_px s)) prior_close] else [])"

definition spec_signal :: "snapshot \<Rightarrow> pyfloat \<Rightarrow> signal" where
  "spec_signal s prior_close =
     (let b = length (filter (\<lambda>x. x) (spec_votes s prior_close));
          sl = length (filter (\<lambda>x. \<not> x) (spec_votes s prior_close))
      in \<lparr>direction = (if b > sl then 1 else if sl > b then - 1 else 0),
          strength = real (max b sl) / 7,
          buy_signals = b,
          sell_signals = sl\<rparr>)"

definition section8_scenario :: "snapshot \<Rightarrow> bool" where
  "section8_scenario s \<longleftrightarrow>
     ema9 s > sma20 s \<and> sma20 s > sma50 s \<and> rsi s = 55 \<and> macd_line s > macd_sig s \<and>
     close_px s > bb_mid s \<and> vol s < vol_avg s"

text \<open>A latest bar in the situation of the scenario, with the volume below its average.\<close>

definition bull :: snapshot where
  "bull = \<lparr>ema9 = 105, sma20 = 102, sma50 = 100, rsi = 55, macd_line = 2, macd_sig = 1,
           close_px = 106, bb_mid = 103, vol = 900, vol_avg = 1000,
           high_px = 107, low_px = 104\<rparr>"

text \<open>
  A latest bar on which the six votes split three to three: the volume exceeds its
  average and the close has not risen over the prior close.
\<close>

definition tie :: snapshot where
  "tie = \<lparr>ema9 = 105, sma20 = 102, sma50 = 100, rsi = 40, macd_line = 1, macd_sig = 2,
          close_px = 106, bb_mid = 103, vol = 1200, vol_avg = 1000,
          high_px = 107, low_px = 104\<rparr>"

section \<open>Supertrend (analysis/technical\_analyzer.py, calculate\_supertrend)\<close>

text \<open>
  The average true range comes from the TA library; its column \<open>atr\<close> (one value per
  bar, not-a-number during the warm-up) is a parameter here.  The two series that the loop
  fills are created without data, so every cell starts as not-a-number.
\<close>

definition hl2 :: "'a bar_scheme \<Rightarrow> pyfloat" where
  "hl2 b = fhalf (fadd (High b) (Low b))"

definition basic_upperband :: "pyfloat list \<Rightarrow> real \<Rightarrow> 'a bar_scheme list \<Rightarrow> pyfloat list" where
  "basic_upperband atr multiplier data =
     map (\<lambda>(b, a). fadd (hl2 b) (fmul (Val multiplier) a)) (zip data atr)"

definition basic_lowerband :: "pyfloat list \<Rightarrow> real \<Rightarrow> 'a bar_scheme list \<Rightarrow> pyfloat list" where
  "basic_lowerband atr multiplier data =
     map (\<lambda>(b, a). fsub (hl2 b) (fmul (Val multiplier) a)) (zip data atr)"

text \<open>The body of the loop at index \<open>i\<close>, on the pair \<open>(supertrend, direction)\<close>.\<close>

definition supertrend_step ::
  "pyfloat list \<Rightarrow> pyfloat list \<Rightarrow> pyfloat list \<Rightarrow>
   pyfloat list \<times> pyfloat list \<Rightarrow> nat \<Rightarrow> pyfloat list \<times> pyfloat list" where
  "supertrend_step closes upper lower st i =
     (if fgt (closes ! i) (upper ! (i - 1)) then
        ((fst st)[i := lower ! i], (snd st)[i := Val 1])
      else if flt (closes ! i) (lower ! (i - 1)) then
        ((fst st)[i := upper ! i], (snd st)[i := Val (- 1)])
      else
        ((fst st)[i := fst st ! (i - 1)], (snd st)[i := snd st ! (i - 1)]))"

text \<open>\<open>for i in range(1, len(data.index))\<close> from the two empty series.\<close>

definition supertrend_loop ::
  "pyfloat list \<Rightarrow> real \<Rightarrow> 'a bar_scheme list \<Rightarrow> pyfloat list \<times> pyfloat list" where
  "supertrend_loop atr multiplier data =
     foldl (supertrend_step (map Close data) (basic_upperband atr multiplier data)
              (basic_lowerband atr multiplier data))
       (replicate (length data) NaN, replicate (length data) NaN)
       [1..<length data]"

definition calculate_supertrend :: "pyfloat list \<Rightarrow> real \<Rightarrow> 'a bar_scheme list \<Rightarrow> pyfloat list" where
  "calculate_supertrend atr multiplier data = fst (supertrend_loop atr multiplier data)"

text \<open>The local series \<open>direction\<close> when the loop ends (the function does not return it).\<close>

definition supertrend_direction :: "pyfloat list \<Rightarrow> real \<Rightarrow> 'a bar_scheme list \<Rightarrow> pyfloat list" where
  "supertrend_direction atr multiplier data = snd (supertrend_loop atr multiplier data)"

text \<open>Three bars for the examples: a breakout above the prior upper band, then a bar inside.\<close>

definition bars3 :: "bar list" where
  "bars3 = [\<lparr>High = Val 11, Low = Val 9, Close = Val 10, Volume = Val 100\<rparr>,
            \<lparr>High = Val 21, Low = Val 19, Close = Val 20, Volume = Val 100\<rparr>,
            \<lparr>High = Val 21, Low = Val 19, Close = Val 20, Volume = Val 100\<rparr>]"

definition atr3 :: "pyfloat list" where
  "atr3 = [Val 1, Val 1, Val 1]"

section \<open>Position ledger (trading/position\_manager.py, config.py)\<close>

text \<open>The two risk settings of \<open>config.py\<close> that the ledger and the trader read.\<close>

record settings =
  MAX_DAILY_LOSS_PERCENT :: real
  MAX_POSITION_SIZE_PERCENT :: real

definition default_settings :: settings where
  "default_settings = \<lparr>MAX_DAILY_LOSS_PERCENT = 1, MAX_POSITION_SIZE_PERCENT = 5\<rparr>"

text \<open>
  A position is a dictionary.  \<open>add_position\<close> creates it with the keys \<open>entry_price\<close>,
  \<open>quantity\<close> and \<open>entry_time\<close>; \<open>update_position_values\<close> adds \<open>current_price\<close> and
  \<open>unrealized_pnl\<close>; the trader reads \<open>stop_loss\<close> and \<open>target\<close>.  A key that may be
  absent is an option.  Dates and times are clock readings (day and instant numbers).
\<close>

record position =
  entry_price :: real
  quantity :: int
  entry_time :: nat
  stop_loss :: "real option"
  target :: "real option"
  current_price :: "real option"
  unrealized_pnl :: "real option"

text \<open>The rows that \<open>db_manager.record_trade\<close> receives (the sink is assumed not to fail).\<close>

datatype trade =
    BuyTrade string real int nat
  | SellTrade string real real int nat nat real

text \<open>
  The state of a \<open>PositionManager\<close>.  The dictionary \<open>positions\<close> keeps insertion order,
  so it is an association list; assignment to a key replaces in place or appends.
\<close>

record ledger =
  positions :: "(string \<times> position) list"
  daily_pnl :: real
  last_reset :: nat

definition init_ledger :: "nat \<Rightarrow> ledger" where
  "init_ledger today = \<lparr>positions = [], daily_pnl = 0, last_reset = today\<rparr>"

definition reset_daily_metrics :: "nat \<Rightarrow> ledger \<Rightarrow> ledger" where
  "reset_daily_metrics current_date l =
     (if current_date > last_reset l then l\<lparr>daily_pnl := 0, last_reset := current_date\<rparr>
      else l)"

definition can_trade :: "settings \<Rightarrow> nat \<Rightarrow> real \<Rightarrow> ledger \<Rightarrow> bool \<times> ledger" where
  "can_trade cfg current_date portfolio_value l =
     (let l' = reset_daily_metrics current_date l;
          max_daily_loss = portfolio_value * (MAX_DAILY_LOSS_PERCENT cfg / 100)
      in (daily_pnl l' > - max_daily_loss, l'))"

definition add_position ::
  "nat \<Rightarrow> string \<Rightarrow> real \<Rightarrow> int \<Rightarrow> ledger \<times> trade list \<Rightarrow> ledger \<times> trade list" where
  "add_position now symbol price qty s =
     (fst s\<lparr>positions :=
         AList.update symbol
           \<lparr>entry_price = price, quantity = qty, entry_time = now, stop_loss = None,
            target = None, current_price = None, unrealized_pnl = None\<rparr>
           (positions (fst s))\<rparr>,
      snd s @ [BuyTrade symbol price qty now])"

definition close_position ::
  "nat \<Rightarrow> string \<Rightarrow> real \<Rightarrow> ledger \<times> trade list \<Rightarrow> real \<times> ledger \<times> trade list" where
  "close_position now symbol exit_price s =
     (case map_of (positions (fst s)) symbol of
        Some p \<Rightarrow>
          (let pnl = (exit_price - entry_price p) * real_of_int (quantity p)
           in (pnl,
               fst s\<lparr>daily_pnl := daily_pnl (fst s) + pnl,
                     positions := AList.delete symbol (positions (fst s))\<rparr>,
               snd s @ [SellTrade symbol (entry_price p) exit_price (quantity p)
                          (entry_time p) now pnl]))
      | None \<Rightarrow> (0, fst s, snd s))"

definition get_active_positions :: "ledger \<Rightarrow> (string \<times> position) list" where
  "get_active_positions l = positions l"

text \<open>
  The loop of \<open>update_position_values\<close> over \<open>positions.items()\<close>: the running sum
  \<open>unrealized_pnl\<close> is the accumulator \<open>running\<close>, each priced position is marked in place.
\<close>

fun mark_positions ::
  "(string \<rightharpoonup> real) \<Rightarrow> (string \<times> position) list \<Rightarrow> real \<Rightarrow> (string \<times> position) list \<times> real" where
  "mark_positions current_prices [] running = ([], running)"
| "mark_positions current_prices ((symbol, p) # rest) running =
     (case current_prices symbol of
        Some cp \<Rightarrow>
          (let u = (cp - entry_price p) * real_of_int (quantity p);
               p' = p\<lparr>current_price := Some cp, unrealized_pnl := Some u\<rparr>;
               r = mark_positions current_prices rest (running + u)
           in ((symbol, p') # fst r, snd r))
      | None \<Rightarrow>
          (let r = mark_positions current_prices rest running
           in ((symbol, p) # fst r, snd r)))"

definition update_position_values :: "(string \<rightharpoonup> real) \<Rightarrow> ledger \<Rightarrow> real \<times> ledger" where
  "update_position_values current_prices l =
     (let r = mark_positions current_prices (positions l) 0
      in (snd r, l\<lparr>positions := fst r\<rparr>))"

text \<open>
  The aggregate unrealized P&L over all open positions, as the \<open>/positions\<close> route of
  \<open>main.py\<close> computes it: \<open>sum(p.get('unrealized_pnl', 0) for p in positions.values())\<close>.
\<close>

definition total_unrealized :: "(string \<times> position) list \<Rightarrow> real" where
  "total_unrealized ps =
     sum_list (map (\<lambda>(symbol, p). case unrealized_pnl p of Some u \<Rightarrow> u | None \<Rightarrow> 0) ps)"

text \<open>The mark a priced position receives, and what one call contributes for an entry.\<close>

definition marked :: "real \<Rightarrow> position \<Rightarrow> position" where
  "marked cp p =
     p\<lparr>current_price := Some cp,
       unrealized_pnl := Some ((cp - entry_price p) * real_of_int (quantity p))\<rparr>"

definition priced_pnl :: "(string \<rightharpoonup> real) \<Rightarrow> string \<times> position \<Rightarrow> real" where
  "priced_pnl current_prices e =
     (case current_prices (fst e) of
        Some cp \<Rightarrow> (cp - entry_price (snd e)) * real_of_int (quantity (snd e))
      | None \<Rightarrow> 0)"

subsection \<open>Example ledgers\<close>

definition aaa_ledger :: "ledger \<times> trade list" where
  "aaa_ledger = add_position 7 ''AAA'' 100 10 (init_ledger 1, [])"

definition tripped_ledger :: ledger where
  "tripped_ledger =
     \<lparr>positions = [(''AAA'', \<lparr>entry_price = 100, quantity = 10, entry_time = 7,
                     stop_loss = None, target = None, current_price = None,
                     unrealized_pnl = None\<rparr>)],
      daily_pnl = - 1500, last_reset = 1\<rparr>"

definition stale_ledger :: ledger where
  "stale_ledger =
     \<lparr>positions = [(''AAA'', \<lparr>entry_price = 100, quantity = 10, entry_time = 7,
                     stop_loss = None, target = None, current_price = Some 105,
                     unrealized_pnl = Some 50\<rparr>),
                   (''BBB'', \<lparr>entry_price = 10, quantity = 1, entry_time = 8,
                     stop_loss = None, target = None, current_price = None,
                     unrealized_pnl = None\<rparr>)],
      daily_pnl = 0, last_reset = 1\<rparr>"

section \<open>Trader (trading/trader.py)\<close>

record trader =
  is_active :: bool
  portfolio_value :: real
  risk_per_trade :: real
  trailing_sl_percent :: real
  target_profit_percent :: real

definition new_trader :: trader where
  "new_trader = \<lparr>is_active = False, portfolio_value = 0, risk_per_trade = 2 / 100,
                  trailing_sl_percent = 2 / 100, target_profit_percent = 3 / 100\<rparr>"

text \<open>\<open>initialize\<close> with a login that succeeds.\<close>

definition initialize :: "real \<Rightarrow> trader \<Rightarrow> trader" where
  "initialize pv t = t\<lparr>portfolio_value := pv, is_active := True\<rparr>"

text \<open>
  The execution venue (the browser automation): the quoted price of a symbol, and the
  outcome of an order as (status is success, fill price).  Both are assumed to return.
\<close>

record venue =
  get_stock_price :: "string \<Rightarrow> real"
  place_order :: "string \<Rightarrow> int \<Rightarrow> string \<Rightarrow> bool \<times> real"

text \<open>
  The trader calls three methods on its \<open>PositionManager\<close> that the class (lines 9 to 88
  of position\_manager.py, the whole class) does not define.  Looking up a missing
  attribute raises AttributeError before any argument is used.
\<close>

definition get_position :: "ledger \<Rightarrow> string \<Rightarrow> py_error + position option" where
  "get_position l symbol = Inl (AttributeError ''get_position'')"

definition get_total_exposure :: "ledger \<Rightarrow> py_error + real" where
  "get_total_exposure l = Inl (AttributeError ''get_total_exposure'')"

definition update_stop_loss :: "string \<Rightarrow> real \<Rightarrow> ledger \<Rightarrow> py_error + ledger" where
  "update_stop_loss symbol new_stop l = Inl (AttributeError ''update_stop_loss'')"

text \<open>\<open>_validate_trade\<close>; its \<open>except Exception\<close> turns any error into False.\<close>

definition validate_trade :: "ledger \<Rightarrow> string \<Rightarrow> string \<Rightarrow> int \<Rightarrow> bool" where
  "validate_trade l symbol trade_type qty =
     (if trade_type \<notin> set [''BUY'', ''SELL''] then False
      else if qty \<le> 0 then False
      else if trade_type = ''SELL'' then
        (case get_position l symbol of
           Inl e \<Rightarrow> False
         | Inr None \<Rightarrow> False
         | Inr (Some p) \<Rightarrow> (if quantity p < qty then False else True))
      else True)"

text \<open>
  \<open>_check_risk_limits\<close> returns a boolean and logs why it refuses; the log line is kept
  beside the boolean.  \<open>can_trade\<close> may reset the ledger, so the ledger is returned too.
\<close>

datatype risk_log =
    TradeValueExceedsMax real real
  | DailyLossLimitReached
  | MaximumExposureLimitReached
  | RiskCheckFailed py_error

definition check_risk_limits ::
  "settings \<Rightarrow> nat \<Rightarrow> trader \<Rightarrow> real \<Rightarrow> ledger \<Rightarrow> (bool \<times> risk_log list) \<times> ledger" where
  "check_risk_limits cfg today t trade_value l =
     (let max_trade_value = portfolio_value t * risk_per_trade t
      in if trade_value > max_trade_value then
           ((False, [TradeValueExceedsMax trade_value max_trade_value]), l)
         else
           (let r = can_trade cfg today (portfolio_value t) l
            in if \<not> fst r then ((False, [DailyLossLimitReached]), snd r)
               else
                 (case get_total_exposure (snd r) of
                    Inl e \<Rightarrow> ((False, [RiskCheckFailed e]), snd r)
                  | Inr current_exposure \<Rightarrow>
                      (let max_exposure =
                             portfolio_value t * MAX_POSITION_SIZE_PERCENT cfg / 100
                       in if current_exposure + trade_value > max_exposure then
                            ((False, [MaximumExposureLimitReached]), snd r)
                          else ((True, []), snd r)))))"

text \<open>
  Modelled from the spec: \<open>totalExposure()\<close>, the sum of entry price times quantity over
  the open positions.  The source has no such method; this is only used to say when the
  third condition of the risk gate fails.
\<close>

definition spec_total_exposure :: "ledger \<Rightarrow> real" where
  "spec_total_exposure l =
     sum_list (map (\<lambda>e. entry_price (snd e) * real_of_int (quantity (snd e))) (positions l))"

text \<open>
  \<open>execute_trade\<close>.  An exception leaves the changes made before it, so the result is the
  raised error, if any, and the state.  The call of \<open>add_position\<close> passes the keywords
  \<open>stop_loss\<close> and \<open>target\<close>, which that method does not accept.
\<close>

definition execute_trade ::
  "settings \<Rightarrow> nat \<Rightarrow> nat \<Rightarrow> venue \<Rightarrow> trader \<Rightarrow> string \<Rightarrow> string \<Rightarrow> int \<Rightarrow>
   ledger \<times> trade list \<Rightarrow> py_error option \<times> ledger \<times> trade list" where
  "execute_trade cfg today now v t symbol trade_type qty s =
     (if \<not> is_active t then (Some (TradeException ''Trader is not active''), s)
      else if \<not> validate_trade (fst s) symbol trade_type qty then
        (Some (TradeException ''Trade validation failed''), s)
      else
        (let price_now = get_stock_price v symbol;
             trade_value = price_now * real_of_int qty;
             r = check_risk_limits cfg today t trade_value (fst s)
         in if \<not> fst (fst r) then
              (Some (TradeException ''Trade exceeds risk limits''), (snd r, snd s))
            else
              (let trade_result = place_order v symbol qty trade_type
               in if fst trade_result then
                    (if trade_type = ''BUY'' then
                       (Some (TypeError ''add_position() got an unexpected keyword argument''),
                        (snd r, snd s))
                     else
                       (None, snd (close_position now symbol (snd trade_result)
                                     (snd r, snd s))))
                  else (Some (TradeException ''Trade execution failed''), (snd r, snd s)))))"

text \<open>Subscripting a position with a key it may lack.\<close>

definition stop_loss_item :: "position \<Rightarrow> py_error + real" where
  "stop_loss_item p = (case stop_loss p of None \<Rightarrow> Inl (KeyError ''stop_loss'') | Some x \<Rightarrow> Inr x)"

definition target_item :: "position \<Rightarrow> py_error + real" where
  "target_item p = (case target p of None \<Rightarrow> Inl (KeyError ''target'') | Some x \<Rightarrow> Inr x)"

text \<open>
  \<open>current_price <= position['stop_loss'] or current_price >= position['target']\<close>, the
  local \<open>current_price\<close> written \<open>price_now\<close> (the name is a key of the position).
\<close>

definition exit_hit :: "real \<Rightarrow> position \<Rightarrow> py_error + bool" where
  "exit_hit price_now p =
     (case stop_loss_item p of
        Inl e \<Rightarrow> Inl e
      | Inr sl \<Rightarrow>
          (if price_now \<le> sl then Inr True
           else (case target_item p of
                   Inl e \<Rightarrow> Inl e
                 | Inr tg \<Rightarrow> Inr (price_now \<ge> tg))))"

text \<open>The body of the loop of \<open>update_trailing_stops\<close> for one item of the ledger.\<close>

definition trail_one ::
  "settings \<Rightarrow> nat \<Rightarrow> nat \<Rightarrow> venue \<Rightarrow> trader \<Rightarrow> string \<times> position \<Rightarrow>
   ledger \<times> trade list \<Rightarrow> py_error option \<times> ledger \<times> trade list" where
  "trail_one cfg today now v t item s =
     (let symbol = fst item;
          p = snd item;
          price_now = get_stock_price v symbol;
          raised =
            (if price_now > entry_price p then
               (let new_stop = price_now * (1 - trailing_sl_percent t)
                in case stop_loss_item p of
                     Inl e \<Rightarrow> Inl e
                   | Inr sl \<Rightarrow>
                       (if new_stop > sl then update_stop_loss symbol new_stop (fst s)
                        else Inr (fst s)))
             else Inr (fst s))
      in case raised of
           Inl e \<Rightarrow> (Some e, s)
         | Inr l1 \<Rightarrow>
             (case exit_hit price_now p of
                Inl e \<Rightarrow> (Some e, (l1, snd s))
              | Inr hit \<Rightarrow>
                  (if hit then
                     execute_trade cfg today now v t symbol ''SELL'' (quantity p) (l1, snd s)
                   else (None, (l1, snd s)))))"

text \<open>
  The loop over \<open>positions.items()\<close>.  The iterator refuses to go on once the dictionary
  has changed its size; the first error ends the loop.
\<close>

fun trailing_loop ::
  "settings \<Rightarrow> nat \<Rightarrow> nat \<Rightarrow> venue \<Rightarrow> trader \<Rightarrow> (string \<times> position) list \<Rightarrow> nat \<Rightarrow>
   ledger \<times> trade list \<Rightarrow> py_error option \<times> ledger \<times> trade list" where
  "trailing_loop cfg today now v t [] n s =
     (if length (positions (fst s)) \<noteq> n then
        (Some (RuntimeError ''dictionary changed size during iteration''), s)
      else (None, s))"
| "trailing_loop cfg today now v t (item # items) n s =
     (if length (positions (fst s)) \<noteq> n then
        (Some (RuntimeError ''dictionary changed size during iteration''), s)
      else
        (case trail_one cfg today now v t item s of
           (Some e, s') \<Rightarrow> (Some e, s')
         | (None, s') \<Rightarrow> trailing_loop cfg today now v t items n s'))"

text \<open>
  \<open>update_trailing_stops\<close>: the \<open>except\<close> clause logs the error and returns.  The result
  is the list of logged errors and the state.
\<close>

definition update_trailing_stops ::
  "settings \<Rightarrow> nat \<Rightarrow> nat \<Rightarrow> venue \<Rightarrow> trader \<Rightarrow> ledger \<times> trade list \<Rightarrow>
   py_error list \<times> ledger \<times> trade list" where
  "update_trailing_stops cfg today now v t s =
     (let r = trailing_loop cfg today now v t (get_active_positions (fst s))
                (length (get_active_positions (fst s))) s
      in (case fst r of Some e \<Rightarrow> [e] | None \<Rightarrow> [], snd r))"

subsection \<open>Example traders, venues and ledgers\<close>

definition trader0 :: trader where
  "trader0 = initialize 100000 new_trader"

definition quote :: "real \<Rightarrow> venue" where
  "quote x = \<lparr>get_stock_price = (\<lambda>symbol. x), place_order = (\<lambda>symbol qty side. (True, x))\<rparr>"

text \<open>AAA held at 100 x 45, yesterday's loss of 200 still booked.\<close>

definition exposed_ledger :: ledger where
  "exposed_ledger =
     \<lparr>positions = [(''AAA'', \<lparr>entry_price = 100, quantity = 45, entry_time = 7,
                     stop_loss = None, target = None, current_price = None,
                     unrealized_pnl = None\<rparr>)],
      daily_pnl = - 200, last_reset = 1\<rparr>"

text \<open>
  AAA held at 100 x 10 with the stop and the target that \<open>execute_trade\<close> means to set
  (2 percent below and 3 percent above the entry).
\<close>

definition stops_ledger :: ledger where
  "stops_ledger =
     \<lparr>positions = [(''AAA'', \<lparr>entry_price = 100, quantity = 10, entry_time = 7,
                     stop_loss = Some 98, target = Some 103, current_price = None,
                     unrealized_pnl = None\<rparr>)],
      daily_pnl = 0, last_reset = 1\<rparr>"

text \<open>The same position with a target out of reach, so that only the stop matters.\<close>

definition far_target_ledger :: ledger where
  "far_target_ledger =
     \<lparr>positions = [(''AAA'', \<lparr>entry_price = 100, quantity = 10, entry_time = 7,
                     stop_loss = Some 98, target = Some 200, current_price = None,
                     unrealized_pnl = None\<rparr>)],
      daily_pnl = 0, last_reset = 1\<rparr>"

section \<open>Results about the scorer\<close>

lemma vote_total: "fst (vote c v) + snd (vote c v) = Suc (fst v + snd v)"
  by (simp add: vote_def)

lemma momentum_buy_Val:
  "momentum_buy (Val r) \<longleftrightarrow> (30 \<le> r \<and> r \<le> 70 \<and> r > 50) \<or> r < 30"
  by (auto simp: momentum_buy_def)

lemma iloc_neg_last: "xs \<noteq> [] \<Longrightarrow> iloc_neg xs 1 = Inr (last xs)"
  by (simp add: iloc_neg_def last_conv_nth Suc_leI)

lemma iloc_neg_prev: "2 \<le> length xs \<Longrightarrow> iloc_neg xs 2 = Inr (xs ! (length xs - 2))"
  by (simp add: iloc_neg_def)

lemma five_votes:
  "fst (vote c5 (vote c4 (vote c3 (vote c2 (vote c1 (0, 0)))))) +
   snd (vote c5 (vote c4 (vote c3 (vote c2 (vote c1 (0, 0)))))) = 5"
  by (simp add: vote_total)

lemma volume_vote_total:
  assumes "volume_vote data lr v = Inr w"
  shows "fst w + snd w = fst v + snd v \<or> fst w + snd w = Suc (fst v + snd v)"
proof (cases "fgt (Volume lr) (Volume_SMA lr)")
  case False
  with assms show ?thesis by (simp add: volume_vote_def)
next
  case True
  with assms obtain prev :: row where "w = vote (fgt (Close lr) (Close prev)) v"
    by (auto simp: volume_vote_def split: sum.splits)
  then show ?thesis by (simp add: vote_total)
qed

lemma generate_signal_Inr:
  assumes "generate_signal data = Inr r"
  obtains w where
    "fst w + snd w = 5 \<or> fst w + snd w = 6"
    "r = \<lparr>direction = (if fst w > snd w then 1 else if snd w > fst w then - 1 else 0),
          strength = real (max (fst w) (snd w)) / 7,
          buy_signals = fst w, sell_signals = snd w\<rparr>"
proof -
  from assms obtain lr where lr: "iloc_neg data 1 = Inr lr"
    by (auto simp: generate_signal_def split: sum.splits)
  define v5 where "v5 = vote (fgt (Close lr) (BB_Middle lr))
      (vote (fgt (MACD lr) (MACD_Signal lr)) (vote (momentum_buy (RSI lr))
      (vote (fgt (SMA_20 lr) (SMA_50 lr)) (vote (fgt (EMA_9 lr) (SMA_20 lr)) (0, 0)))))"
  have t5: "fst v5 + snd v5 = 5" unfolding v5_def by (rule five_votes)
  from assms lr obtain w where w: "volume_vote data lr v5 = Inr w"
    and r: "r = \<lparr>direction = (if fst w > snd w then 1 else if snd w > fst w then - 1 else 0),
          strength = real (max (fst w) (snd w)) / 7,
          buy_signals = fst w, sell_signals = snd w\<rparr>"
    by (auto simp: generate_signal_def Let_def v5_def total_signals_def split: sum.splits)
  from volume_vote_total[OF w] t5 have "fst w + snd w = 5 \<or> fst w + snd w = 6" by auto
  with r show ?thesis using that by blast
qed

lemma five_votes_count:
  "vote c5 (vote c4 (vote c3 (vote c2 (vote c1 (0, 0))))) =
     (length (filter (\<lambda>x. x) [c1, c2, c3, c4, c5]),
      length (filter (\<lambda>x. \<not> x) [c1, c2, c3, c4, c5]))"
  by (cases c1; cases c2; cases c3; cases c4; cases c5) (simp_all add: vote_def)

lemma vote_count:
  "vote c (length (filter (\<lambda>x. x) cs), length (filter (\<lambda>x. \<not> x) cs)) =
     (length (filter (\<lambda>x. x) (cs @ [c])), length (filter (\<lambda>x. \<not> x) (cs @ [c])))"
  by (simp add: vote_def)

lemma generate_signal_last:
  assumes "data \<noteq> []" and "last data = row_of s"
  shows "generate_signal data =
     (case volume_vote data (row_of s)
             (length (filter (\<lambda>x. x) (spec_category_buys s)),
              length (filter (\<lambda>x. \<not> x) (spec_category_buys s))) of
        Inl e \<Rightarrow> Inl e
      | Inr v6 \<Rightarrow>
          Inr \<lparr>direction = (if fst v6 > snd v6 then 1 else if snd v6 > fst v6 then - 1 else 0),
               strength = real (max (fst v6) (snd v6)) / 7,
               buy_signals = fst v6, sell_signals = snd v6\<rparr>)"
proof -
  have lr: "iloc_neg data 1 = Inr (row_of s)"
    using assms iloc_neg_last[of data] by simp
  have v5: "vote (fgt (Close (row_of s)) (BB_Middle (row_of s)))
      (vote (fgt (MACD (row_of s)) (MACD_Signal (row_of s)))
      (vote (momentum_buy (RSI (row_of s)))
      (vote (fgt (SMA_20 (row_of s)) (SMA_50 (row_of s)))
      (vote (fgt (EMA_9 (row_of s)) (SMA_20 (row_of s))) (0, 0))))) =
     (length (filter (\<lambda>x. x) (spec_category_buys s)),
      length (filter (\<lambda>x. \<not> x) (spec_category_buys s)))"
    unfolding five_votes_count spec_category_buys_def
    by (simp only: row_of_def row.simps bar.simps fgt.simps momentum_buy_Val)
  show ?thesis
    unfolding generate_signal_def lr Let_def sum.case v5 total_signals_def ..
qed

lemma volume_vote_votes:
  assumes "2 \<le> length data"
  shows "volume_vote data (row_of s)
           (length (filter (\<lambda>x. x) (spec_category_buys s)),
            length (filter (\<lambda>x. \<not> x) (spec_category_buys s))) =
         Inr (length (filter (\<lambda>x. x) (spec_votes s (Close (data ! (length data - 2))))),
              length (filter (\<lambda>x. \<not> x) (spec_votes s (Close (data ! (length data - 2))))))"
proof (cases "vol s > vol_avg s")
  case True
  then have g: "fgt (Volume (row_of s)) (Volume_SMA (row_of s))" by (simp add: row_of_def)
  have c: "Close (row_of s) = Val (close_px s)" by (simp add: row_of_def)
  show ?thesis
    unfolding volume_vote_def iloc_neg_prev[OF assms] sum.case vote_count c
    using g True by (simp only: spec_votes_def if_True)
next
  case False
  then have g: "\<not> fgt (Volume (row_of s)) (Volume_SMA (row_of s))" by (simp add: row_of_def)
  show ?thesis unfolding volume_vote_def using g False by (simp add: spec_votes_def)
qed

text \<open>
  C10.  Whenever \<open>generate_signal\<close> returns, at least five votes were cast, so the larger
  counter is at least 3 and the strength at least 3/7; on an exact tie (direction 0) the
  strength is exactly 3/7, so a neutral signal passes every threshold that is at most 3/7.
\<close>

theorem strength_lower_bound:
  assumes "generate_signal data = Inr r"
  shows "5 \<le> buy_signals r + sell_signals r
       \<and> 3 \<le> max (buy_signals r) (sell_signals r)
       \<and> 3 / 7 \<le> strength r
       \<and> (direction r = 0 \<longrightarrow> strength r = 3 / 7)
       \<and> (\<forall>t. t \<le> 3 / 7 \<longrightarrow> t \<le> strength r)"
proof -
  from assms obtain w where t: "fst w + snd w = 5 \<or> fst w + snd w = 6"
    and r: "r = \<lparr>direction = (if fst w > snd w then 1 else if snd w > fst w then - 1 else 0),
          strength = real (max (fst w) (snd w)) / 7,
          buy_signals = fst w, sell_signals = snd w\<rparr>"
    by (rule generate_signal_Inr)
  from t have a: "5 \<le> buy_signals r + sell_signals r" unfolding r by auto
  from t have m: "3 \<le> max (fst w) (snd w)" by linarith
  then have m': "3 \<le> max (buy_signals r) (sell_signals r)" unfolding r by simp
  from m have s: "3 / 7 \<le> strength r" unfolding r by simp
  have z: "direction r = 0 \<longrightarrow> strength r = 3 / 7"
  proof
    assume "direction r = 0"
    then have e: "fst w = snd w" unfolding r by (simp split: if_splits)
    with t have "fst w = 3" by linarith
    with e show "strength r = 3 / 7" unfolding r by simp
  qed
  from a m' s z show ?thesis by auto
qed

theorem strength_lower_bound_witness:
  "generate_signal [row_of tie, row_of tie] =
     Inr \<lparr>direction = 0, strength = 3 / 7, buy_signals = 3, sell_signals = 3\<rparr>
   \<and> (3::nat) \<le> max 3 3 \<and> (3::real) / 7 \<le> 3 / 7"
proof -
  have l: "last [row_of tie, row_of tie] = row_of tie" by simp
  have v: "spec_votes tie (Close (row_of tie)) = [True, True, False, False, True, False]"
    by (simp add: spec_votes_def spec_category_buys_def tie_def row_of_def)
  have g: "generate_signal [row_of tie, row_of tie] =
     Inr \<lparr>direction = 0, strength = 3 / 7, buy_signals = 3, sell_signals = 3\<rparr>"
    unfolding generate_signal_last[OF _ l, simplified]
    using volume_vote_votes[of "[row_of tie, row_of tie]" tie] by (simp add: v)
  from strength_lower_bound[OF g] show ?thesis using g by simp
qed

text \<open>
  C1.  On a frame of at least two bars whose latest row is well defined, \<open>generate_signal\<close>
  returns the signal of the six-category unweighted vote as the specification words it:
  the five unconditional categories, the volume vote cast only when the volume exceeds its
  average, the direction by majority with 0 on a tie, and the strength as the larger count
  over 7.  In the scenario of section 8 the result is 5 buy votes, direction +1 and
  strength 5/7.
\<close>

theorem generate_signal_votes:
  "(2 \<le> length data \<and> last data = row_of s \<longrightarrow>
      generate_signal data = Inr (spec_signal s (Close (data ! (length data - 2)))))
   \<and> (data \<noteq> [] \<and> last data = row_of s \<and> section8_scenario s \<longrightarrow>
      generate_signal data =
        Inr \<lparr>direction = 1, strength = 5 / 7, buy_signals = 5, sell_signals = 0\<rparr>)"
proof (intro conjI impI)
  assume h: "2 \<le> length data \<and> last data = row_of s"
  then have ne: "data \<noteq> []" and l: "last data = row_of s" and two: "2 \<le> length data"
    by auto
  show "generate_signal data = Inr (spec_signal s (Close (data ! (length data - 2))))"
    unfolding generate_signal_last[OF ne l] volume_vote_votes[OF two] sum.case
    by (simp only: spec_signal_def Let_def fst_conv snd_conv)
next
  assume h: "data \<noteq> [] \<and> last data = row_of s \<and> section8_scenario s"
  then have ne: "data \<noteq> []" and l: "last data = row_of s" and sc: "section8_scenario s"
    by auto
  from sc have g: "\<not> fgt (Volume (row_of s)) (Volume_SMA (row_of s))"
    by (simp add: row_of_def section8_scenario_def)
  from sc have cs: "spec_category_buys s = [True, True, True, True, True]"
    by (simp add: spec_category_buys_def section8_scenario_def)
  show "generate_signal data =
        Inr \<lparr>direction = 1, strength = 5 / 7, buy_signals = 5, sell_signals = 0\<rparr>"
    unfolding generate_signal_last[OF ne l] volume_vote_def cs using g by simp
qed

theorem generate_signal_votes_witness:
  "2 \<le> length [row_of bull, row_of bull]
   \<and> last [row_of bull, row_of bull] = row_of bull
   \<and> section8_scenario bull
   \<and> generate_signal [row_of bull, row_of bull] = Inr (spec_signal bull (Close (row_of bull)))
   \<and> generate_signal [row_of bull, row_of bull] =
     Inr \<lparr>direction = 1, strength = 5 / 7, buy_signals = 5, sell_signals = 0\<rparr>"
proof -
  have sc: "section8_scenario bull" by (simp add: section8_scenario_def bull_def)
  have a: "generate_signal [row_of bull, row_of bull] =
      Inr (spec_signal bull (Close (row_of bull)))"
    using generate_signal_votes[of "[row_of bull, row_of bull]" bull, THEN conjunct1] by simp
  have b: "generate_signal [row_of bull, row_of bull] =
      Inr \<lparr>direction = 1, strength = 5 / 7, buy_signals = 5, sell_signals = 0\<rparr>"
    using generate_signal_votes[of "[row_of bull, row_of bull]" bull, THEN conjunct2] sc by simp
  show ?thesis
    by (intro conjI; (rule a | rule b | rule sc | simp))
qed

section \<open>Results about the Supertrend loop\<close>

lemma step_length:
  "length (fst (supertrend_step c u l st i)) = length (fst st)"
  "length (snd (supertrend_step c u l st i)) = length (snd st)"
  by (simp_all add: supertrend_step_def)

lemma step_other:
  "j \<noteq> i \<Longrightarrow> fst (supertrend_step c u l st i) ! j = fst st ! j"
  "j \<noteq> i \<Longrightarrow> snd (supertrend_step c u l st i) ! j = snd st ! j"
  by (simp_all add: supertrend_step_def)

lemma run_length:
  "length (fst (foldl (supertrend_step c u l) st [1..<k])) = length (fst st)
   \<and> length (snd (foldl (supertrend_step c u l) st [1..<k])) = length (snd st)"
  by (induction k) (simp_all add: step_length)

lemma run_stable:
  assumes "j < k" "k \<le> k'"
  shows "fst (foldl (supertrend_step c u l) st [1..<k']) ! j =
         fst (foldl (supertrend_step c u l) st [1..<k]) ! j
       \<and> snd (foldl (supertrend_step c u l) st [1..<k']) ! j =
         snd (foldl (supertrend_step c u l) st [1..<k]) ! j"
  using assms(2)
proof (induction k' rule: dec_induct)
  case base
  show ?case by simp
next
  case (step n)
  from assms(1) step.hyps have jn: "j \<noteq> n" and n1: "1 \<le> n" by auto
  show ?case using step.IH jn n1 by (simp add: step_other)
qed


lemma loop_at:
  fixes c u l :: "pyfloat list" and st :: "pyfloat list \<times> pyfloat list"
  assumes i: "1 \<le> i" "i < n" and len: "length (fst st) = n" "length (snd st) = n"
  defines "F \<equiv> foldl (supertrend_step c u l) st [1..<n]"
  shows "fst F ! i = (if fgt (c ! i) (u ! (i - 1)) then l ! i
                      else if flt (c ! i) (l ! (i - 1)) then u ! i
                      else fst F ! (i - 1))"
    and "snd F ! i = (if fgt (c ! i) (u ! (i - 1)) then Val 1
                      else if flt (c ! i) (l ! (i - 1)) then Val (- 1)
                      else snd F ! (i - 1))"
proof -
  define G where "G = foldl (supertrend_step c u l) st [1..<i]"
  have S: "foldl (supertrend_step c u l) st [1..<Suc i] = supertrend_step c u l G i"
    unfolding G_def using i(1) by simp
  have lenG: "i < length (fst G)" "i < length (snd G)"
    unfolding G_def using run_length[of c u l st i] len i(2) by simp_all
  have at_i: "fst F ! i = fst (supertrend_step c u l G i) ! i"
             "snd F ! i = snd (supertrend_step c u l G i) ! i"
    unfolding F_def S[symmetric]
    using run_stable[of i "Suc i" n c u l st] i(2) by simp_all
  have prev: "fst F ! (i - 1) = fst G ! (i - 1)" "snd F ! (i - 1) = snd G ! (i - 1)"
    unfolding F_def G_def
    using run_stable[of "i - 1" i n c u l st] i by simp_all
  show "fst F ! i = (if fgt (c ! i) (u ! (i - 1)) then l ! i
                      else if flt (c ! i) (l ! (i - 1)) then u ! i
                      else fst F ! (i - 1))"
    unfolding at_i prev using lenG by (simp add: supertrend_step_def)
  show "snd F ! i = (if fgt (c ! i) (u ! (i - 1)) then Val 1
                      else if flt (c ! i) (l ! (i - 1)) then Val (- 1)
                      else snd F ! (i - 1))"
    unfolding at_i prev using lenG by (simp add: supertrend_step_def)
qed

lemma loop_first:
  assumes "0 < n"
  shows "fst (foldl (supertrend_step c u l) (replicate n NaN, replicate n NaN) [1..<n]) ! 0 = NaN"
proof -
  have "fst (foldl (supertrend_step c u l) (replicate n NaN, replicate n NaN) [1..<n]) ! 0 =
        fst (foldl (supertrend_step c u l) (replicate n NaN, replicate n NaN) [1..<1]) ! 0"
    using run_stable[of 0 1 n c u l "(replicate n NaN, replicate n NaN)"] assms by simp
  then show ?thesis using assms by simp
qed

lemma supertrend_line_at:
  assumes "1 \<le> i" "i < length data"
  shows "calculate_supertrend atr m data ! i =
           (if fgt (Close (data ! i)) (basic_upperband atr m data ! (i - 1))
              then basic_lowerband atr m data ! i
            else if flt (Close (data ! i)) (basic_lowerband atr m data ! (i - 1))
              then basic_upperband atr m data ! i
            else calculate_supertrend atr m data ! (i - 1))"
  unfolding calculate_supertrend_def supertrend_loop_def
  using loop_at(1)[OF assms, of "(replicate (length data) NaN, replicate (length data) NaN)"
      "map Close data" "basic_upperband atr m data" "basic_lowerband atr m data"] assms(2)
  by simp

lemma supertrend_direction_at:
  assumes "1 \<le> i" "i < length data"
  shows "supertrend_direction atr m data ! i =
           (if fgt (Close (data ! i)) (basic_upperband atr m data ! (i - 1)) then Val 1
            else if flt (Close (data ! i)) (basic_lowerband atr m data ! (i - 1)) then Val (- 1)
            else supertrend_direction atr m data ! (i - 1))"
  unfolding supertrend_direction_def supertrend_loop_def
  using loop_at(2)[OF assms, of "(replicate (length data) NaN, replicate (length data) NaN)"
      "map Close data" "basic_upperband atr m data" "basic_lowerband atr m data"] assms(2)
  by simp

text \<open>
  C2.  For a frame with one ATR value per bar, the line returned by
  \<open>calculate_supertrend\<close> has one cell per bar, its cell 0 is never written
  (not-a-number), and every cell \<open>i \<ge> 1\<close> obeys the recurrence: the current lower band
  after a close strictly above the prior upper band, else the current upper band after a
  close strictly below the prior lower band, else the previous cell, the direction carried
  with it.  Hence a close between the prior bands (bounds included) leaves line and
  direction as they were, and the direction changes only on a strict breach.
\<close>

theorem supertrend_recurrence:
  assumes "length atr = length data"
  shows "length (calculate_supertrend atr m data) = length data
   \<and> length (basic_upperband atr m data) = length data
   \<and> length (basic_lowerband atr m data) = length data
   \<and> (data \<noteq> [] \<longrightarrow> calculate_supertrend atr m data ! 0 = NaN)
   \<and> (\<forall>i. 1 \<le> i \<and> i < length data \<longrightarrow>
        (if fgt (Close (data ! i)) (basic_upperband atr m data ! (i - 1)) then
           calculate_supertrend atr m data ! i = basic_lowerband atr m data ! i
           \<and> supertrend_direction atr m data ! i = Val 1
         else if flt (Close (data ! i)) (basic_lowerband atr m data ! (i - 1)) then
           calculate_supertrend atr m data ! i = basic_upperband atr m data ! i
           \<and> supertrend_direction atr m data ! i = Val (- 1)
         else
           calculate_supertrend atr m data ! i = calculate_supertrend atr m data ! (i - 1)
           \<and> supertrend_direction atr m data ! i = supertrend_direction atr m data ! (i - 1)))
   \<and> (\<forall>i x lo up. 1 \<le> i \<and> i < length data \<and> Close (data ! i) = Val x
          \<and> basic_lowerband atr m data ! (i - 1) = Val lo
          \<and> basic_upperband atr m data ! (i - 1) = Val up \<and> lo \<le> x \<and> x \<le> up \<longrightarrow>
        calculate_supertrend atr m data ! i = calculate_supertrend atr m data ! (i - 1)
        \<and> supertrend_direction atr m data ! i = supertrend_direction atr m data ! (i - 1))
   \<and> (\<forall>i. 1 \<le> i \<and> i < length data
          \<and> supertrend_direction atr m data ! i \<noteq> supertrend_direction atr m data ! (i - 1) \<longrightarrow>
        (supertrend_direction atr m data ! i = Val 1
           \<and> fgt (Close (data ! i)) (basic_upperband atr m data ! (i - 1)))
        \<or> (supertrend_direction atr m data ! i = Val (- 1)
           \<and> flt (Close (data ! i)) (basic_lowerband atr m data ! (i - 1))))"
proof (intro conjI allI impI)
  show "length (calculate_supertrend atr m data) = length data"
    unfolding calculate_supertrend_def supertrend_loop_def
    using run_length[of "map Close data" "basic_upperband atr m data"
        "basic_lowerband atr m data" "(replicate (length data) NaN, replicate (length data) NaN)"
        "length data"]
    by simp
  show "length (basic_upperband atr m data) = length data"
    using assms by (simp add: basic_upperband_def)
  show "length (basic_lowerband atr m data) = length data"
    using assms by (simp add: basic_lowerband_def)
  show "calculate_supertrend atr m data ! 0 = NaN" if "data \<noteq> []"
    unfolding calculate_supertrend_def supertrend_loop_def
    using that loop_first[of "length data" "map Close data" "basic_upperband atr m data"
        "basic_lowerband atr m data"]
    by simp
next
  fix i assume "1 \<le> i \<and> i < length data"
  then have i: "1 \<le> i" "i < length data" by auto
  show "if fgt (Close (data ! i)) (basic_upperband atr m data ! (i - 1)) then
           calculate_supertrend atr m data ! i = basic_lowerband atr m data ! i
           \<and> supertrend_direction atr m data ! i = Val 1
         else if flt (Close (data ! i)) (basic_lowerband atr m data ! (i - 1)) then
           calculate_supertrend atr m data ! i = basic_upperband atr m data ! i
           \<and> supertrend_direction atr m data ! i = Val (- 1)
         else
           calculate_supertrend atr m data ! i = calculate_supertrend atr m data ! (i - 1)
           \<and> supertrend_direction atr m data ! i = supertrend_direction atr m data ! (i - 1)"
    using supertrend_line_at[OF i, of atr m] supertrend_direction_at[OF i, of atr m]
    by simp
next
  fix i x lo up
  assume h: "1 \<le> i \<and> i < length data \<and> Close (data ! i) = Val x
          \<and> basic_lowerband atr m data ! (i - 1) = Val lo
          \<and> basic_upperband atr m data ! (i - 1) = Val up \<and> lo \<le> x \<and> x \<le> up"
  then have i: "1 \<le> i" "i < length data" by auto
  from h have n1: "\<not> fgt (Close (data ! i)) (basic_upperband atr m data ! (i - 1))"
    and n2: "\<not> flt (Close (data ! i)) (basic_lowerband atr m data ! (i - 1))" by auto
  show "calculate_supertrend atr m data ! i = calculate_supertrend atr m data ! (i - 1)"
    using supertrend_line_at[OF i, of atr m] n1 n2 by simp
  show "supertrend_direction atr m data ! i = supertrend_direction atr m data ! (i - 1)"
    using supertrend_direction_at[OF i, of atr m] n1 n2 by simp
next
  fix i
  assume h: "1 \<le> i \<and> i < length data
          \<and> supertrend_direction atr m data ! i \<noteq> supertrend_direction atr m data ! (i - 1)"
  then have i: "1 \<le> i" "i < length data" by auto
  show "(supertrend_direction atr m data ! i = Val 1
           \<and> fgt (Close (data ! i)) (basic_upperband atr m data ! (i - 1)))
        \<or> (supertrend_direction atr m data ! i = Val (- 1)
           \<and> flt (Close (data ! i)) (basic_lowerband atr m data ! (i - 1)))"
    using supertrend_direction_at[OF i, of atr m] h by (auto split: if_splits)
qed

theorem supertrend_recurrence_witness:
  "length atr3 = length bars3
   \<and> calculate_supertrend atr3 3 bars3 = [NaN, Val 17, Val 17]
   \<and> supertrend_direction atr3 3 bars3 = [NaN, Val 1, Val 1]
   \<and> basic_upperband atr3 3 bars3 = [Val 13, Val 23, Val 23]
   \<and> basic_lowerband atr3 3 bars3 = [Val 7, Val 17, Val 17]
   \<and> calculate_supertrend atr3 3 bars3 ! 0 = NaN
   \<and> calculate_supertrend atr3 3 bars3 ! 1 = basic_lowerband atr3 3 bars3 ! 1
   \<and> calculate_supertrend atr3 3 bars3 ! 2 = calculate_supertrend atr3 3 bars3 ! 1"
proof -
  have len: "length atr3 = length bars3" by (simp add: atr3_def bars3_def)
  have up: "basic_upperband atr3 3 bars3 = [Val 13, Val 23, Val 23]"
    by (simp add: basic_upperband_def atr3_def bars3_def hl2_def)
  have lo: "basic_lowerband atr3 3 bars3 = [Val 7, Val 17, Val 17]"
    by (simp add: basic_lowerband_def atr3_def bars3_def hl2_def)
  have n: "length bars3 = 3" by (simp add: bars3_def)
  have c: "map Close bars3 = [Val 10, Val 20, Val 20]" by (simp add: bars3_def)
  have u3: "[1..<3] = [1, 2]" by (simp add: upt_rec)
  have loop: "supertrend_loop atr3 3 bars3 = ([NaN, Val 17, Val 17], [NaN, Val 1, Val 1])"
    unfolding supertrend_loop_def up lo n c u3
    by (simp add: supertrend_step_def numeral_3_eq_3)
  note t = supertrend_recurrence[OF len, of 3]
  have ne: "bars3 \<noteq> []" by (simp add: bars3_def)
  have c1: "Close (bars3 ! 1) = Val 20" and c2: "Close (bars3 ! 2) = Val 20"
    by (simp_all add: bars3_def)
  have a: "calculate_supertrend atr3 3 bars3 ! 0 = NaN"
    using t ne by simp
  from t have r: "\<forall>i. 1 \<le> i \<and> i < length bars3 \<longrightarrow>
        (if fgt (Close (bars3 ! i)) (basic_upperband atr3 3 bars3 ! (i - 1)) then
           calculate_supertrend atr3 3 bars3 ! i = basic_lowerband atr3 3 bars3 ! i
           \<and> supertrend_direction atr3 3 bars3 ! i = Val 1
         else if flt (Close (bars3 ! i)) (basic_lowerband atr3 3 bars3 ! (i - 1)) then
           calculate_supertrend atr3 3 bars3 ! i = basic_upperband atr3 3 bars3 ! i
           \<and> supertrend_direction atr3 3 bars3 ! i = Val (- 1)
         else
           calculate_supertrend atr3 3 bars3 ! i = calculate_supertrend atr3 3 bars3 ! (i - 1)
           \<and> supertrend_direction atr3 3 bars3 ! i = supertrend_direction atr3 3 bars3 ! (i - 1))"
    by blast
  have b: "calculate_supertrend atr3 3 bars3 ! 1 = basic_lowerband atr3 3 bars3 ! 1"
    using r[rule_format, of 1] c1 up lo n by simp
  have d: "calculate_supertrend atr3 3 bars3 ! 2 = calculate_supertrend atr3 3 bars3 ! 1"
    using r[rule_format, of 2] c2 up lo n by simp
  show ?thesis
    using len up lo loop a b d
    by (simp add: calculate_supertrend_def supertrend_direction_def)
qed

section \<open>Results about the position ledger\<close>

text \<open>
  C3.  \<open>can_trade\<close> first applies the daily reset (\<open>daily_pnl\<close> back to 0 when the date
  has passed \<open>last_reset\<close>) and then answers whether \<open>daily_pnl\<close> is strictly above
  minus the portfolio value times MAX\_DAILY\_LOSS\_PERCENT over 100.  With portfolio 100000
  and 1 percent, on the day of the last reset, -999 allows trading, -1001 and -1000 do not.
\<close>

theorem can_trade_threshold:
  "can_trade cfg today pv l =
     (daily_pnl (reset_daily_metrics today l) > - (pv * MAX_DAILY_LOSS_PERCENT cfg / 100),
      reset_daily_metrics today l)
   \<and> reset_daily_metrics today l =
       (if today > last_reset l then l\<lparr>daily_pnl := 0, last_reset := today\<rparr> else l)
   \<and> (today \<le> last_reset l \<and> MAX_DAILY_LOSS_PERCENT cfg = 1 \<and> pv = 100000 \<longrightarrow>
        (daily_pnl l = - 999 \<longrightarrow> fst (can_trade cfg today pv l))
      \<and> (daily_pnl l = - 1001 \<longrightarrow> \<not> fst (can_trade cfg today pv l))
      \<and> (daily_pnl l = - 1000 \<longrightarrow> \<not> fst (can_trade cfg today pv l)))"
  by (simp add: can_trade_def reset_daily_metrics_def Let_def)

theorem can_trade_threshold_witness:
  "fst (can_trade default_settings 1 100000 \<lparr>positions = [], daily_pnl = - 999, last_reset = 1\<rparr>)
   \<and> \<not> fst (can_trade default_settings 1 100000 \<lparr>positions = [], daily_pnl = - 1001, last_reset = 1\<rparr>)
   \<and> \<not> fst (can_trade default_settings 1 100000 \<lparr>positions = [], daily_pnl = - 1000, last_reset = 1\<rparr>)
   \<and> can_trade default_settings 2 100000 \<lparr>positions = [], daily_pnl = - 1001, last_reset = 1\<rparr>
       = (True, \<lparr>positions = [], daily_pnl = 0, last_reset = 2\<rparr>)"
proof -
  have m: "MAX_DAILY_LOSS_PERCENT default_settings = 1" by (simp add: default_settings_def)
  show ?thesis
    using can_trade_threshold[of default_settings 1 100000
        "\<lparr>positions = [], daily_pnl = - 999, last_reset = 1\<rparr>"]
      can_trade_threshold[of default_settings 1 100000
        "\<lparr>positions = [], daily_pnl = - 1001, last_reset = 1\<rparr>"]
      can_trade_threshold[of default_settings 1 100000
        "\<lparr>positions = [], daily_pnl = - 1000, last_reset = 1\<rparr>"]
      can_trade_threshold[of default_settings 2 100000
        "\<lparr>positions = [], daily_pnl = - 1001, last_reset = 1\<rparr>"] m
    by simp
qed

lemma map_of_delete_other:
  "k' \<noteq> k \<Longrightarrow> map_of (AList.delete k al) k' = map_of al k'"
  by (simp add: delete_conv')

lemma map_of_delete_same: "map_of (AList.delete k al) k = None"
  by (simp add: delete_conv')

text \<open>
  C6.  Closing a held symbol returns (exit price - entry price) * quantity, adds that
  amount to \<open>daily_pnl\<close>, removes the symbol and leaves every other symbol alone; closing
  a symbol that is not held returns 0 and changes nothing.  Opening AAA at 100 x 10 and
  closing it at 110 yields 100, raises \<open>daily_pnl\<close> by 100 and AAA is no longer listed.
\<close>

theorem close_position_pnl:
  "(map_of (positions l) symbol = Some p \<longrightarrow>
      close_position now symbol x (l, db) =
        ((x - entry_price p) * real_of_int (quantity p),
         l\<lparr>daily_pnl := daily_pnl l + (x - entry_price p) * real_of_int (quantity p),
           positions := AList.delete symbol (positions l)\<rparr>,
         db @ [SellTrade symbol (entry_price p) x (quantity p) (entry_time p) now
                 ((x - entry_price p) * real_of_int (quantity p))])
      \<and> daily_pnl (fst (snd (close_position now symbol x (l, db)))) =
          daily_pnl l + (x - entry_price p) * real_of_int (quantity p)
      \<and> map_of (positions (fst (snd (close_position now symbol x (l, db))))) symbol = None
      \<and> symbol \<notin> fst ` set (positions (fst (snd (close_position now symbol x (l, db)))))
      \<and> (\<forall>other. other \<noteq> symbol \<longrightarrow>
            map_of (positions (fst (snd (close_position now symbol x (l, db))))) other =
            map_of (positions l) other))
   \<and> (map_of (positions l) symbol = None \<longrightarrow> close_position now symbol x (l, db) = (0, l, db))
   \<and> fst (close_position now' ''AAA'' 110 (add_position now ''AAA'' 100 10 (l, db))) = 100
   \<and> daily_pnl (fst (snd (close_position now' ''AAA'' 110
         (add_position now ''AAA'' 100 10 (l, db))))) = daily_pnl l + 100
   \<and> map_of (positions (fst (snd (close_position now' ''AAA'' 110
         (add_position now ''AAA'' 100 10 (l, db)))))) ''AAA'' = None"
proof (intro conjI impI allI)
  assume h: "map_of (positions l) symbol = Some p"
  show c: "close_position now symbol x (l, db) =
        ((x - entry_price p) * real_of_int (quantity p),
         l\<lparr>daily_pnl := daily_pnl l + (x - entry_price p) * real_of_int (quantity p),
           positions := AList.delete symbol (positions l)\<rparr>,
         db @ [SellTrade symbol (entry_price p) x (quantity p) (entry_time p) now
                 ((x - entry_price p) * real_of_int (quantity p))])"
    using h by (simp add: close_position_def Let_def)
  show "daily_pnl (fst (snd (close_position now symbol x (l, db)))) =
          daily_pnl l + (x - entry_price p) * real_of_int (quantity p)"
    unfolding c by simp
  show n: "map_of (positions (fst (snd (close_position now symbol x (l, db))))) symbol = None"
    unfolding c by (simp add: map_of_delete_same)
  show "symbol \<notin> fst ` set (positions (fst (snd (close_position now symbol x (l, db)))))"
    using n by (simp add: map_of_eq_None_iff)
  show "map_of (positions (fst (snd (close_position now symbol x (l, db))))) other =
            map_of (positions l) other" if "other \<noteq> symbol" for other
    unfolding c using that by (simp add: map_of_delete_other)
next
  assume "map_of (positions l) symbol = None"
  then show "close_position now symbol x (l, db) = (0, l, db)"
    by (simp add: close_position_def)
next
  have m: "map_of (positions (fst (add_position now ''AAA'' 100 10 (l, db)))) ''AAA'' =
      Some \<lparr>entry_price = 100, quantity = 10, entry_time = now, stop_loss = None,
            target = None, current_price = None, unrealized_pnl = None\<rparr>"
    by (simp add: add_position_def update_conv')
  have d: "daily_pnl (fst (add_position now ''AAA'' 100 10 (l, db))) = daily_pnl l"
    by (simp add: add_position_def)
  show "fst (close_position now' ''AAA'' 110 (add_position now ''AAA'' 100 10 (l, db))) = 100"
    using m by (simp add: close_position_def Let_def)
  show "daily_pnl (fst (snd (close_position now' ''AAA'' 110
         (add_position now ''AAA'' 100 10 (l, db))))) = daily_pnl l + 100"
    using m d by (simp add: close_position_def Let_def)
  show "map_of (positions (fst (snd (close_position now' ''AAA'' 110
         (add_position now ''AAA'' 100 10 (l, db)))))) ''AAA'' = None"
    using m by (simp add: close_position_def Let_def map_of_delete_same)
qed

theorem close_position_pnl_witness:
  "map_of (positions (fst aaa_ledger)) ''AAA'' =
     Some \<lparr>entry_price = 100, quantity = 10, entry_time = 7, stop_loss = None,
           target = None, current_price = None, unrealized_pnl = None\<rparr>
   \<and> close_position 9 ''AAA'' 110 aaa_ledger =
       (100, \<lparr>positions = [], daily_pnl = 100, last_reset = 1\<rparr>,
        [BuyTrade ''AAA'' 100 10 7, SellTrade ''AAA'' 100 110 10 7 9 100])
   \<and> map_of (positions (fst aaa_ledger)) ''BBB'' = None
   \<and> close_position 9 ''BBB'' 110 aaa_ledger = (0, fst aaa_ledger, snd aaa_ledger)"
proof -
  have a: "aaa_ledger =
     (\<lparr>positions = [(''AAA'', \<lparr>entry_price = 100, quantity = 10, entry_time = 7,
           stop_loss = None, target = None, current_price = None, unrealized_pnl = None\<rparr>)],
       daily_pnl = 0, last_reset = 1\<rparr>, [BuyTrade ''AAA'' 100 10 7])"
    by (simp add: aaa_ledger_def add_position_def init_ledger_def)
  show ?thesis
    unfolding a
    using close_position_pnl[of
        "\<lparr>positions = [(''AAA'', \<lparr>entry_price = 100, quantity = 10, entry_time = 7,
           stop_loss = None, target = None, current_price = None, unrealized_pnl = None\<rparr>)],
          daily_pnl = 0, last_reset = 1\<rparr>" "''AAA''"
        "\<lparr>entry_price = 100, quantity = 10, entry_time = 7,
           stop_loss = None, target = None, current_price = None, unrealized_pnl = None\<rparr>"
        9 110 "[BuyTrade ''AAA'' 100 10 7]"]
      close_position_pnl[of
        "\<lparr>positions = [(''AAA'', \<lparr>entry_price = 100, quantity = 10, entry_time = 7,
           stop_loss = None, target = None, current_price = None, unrealized_pnl = None\<rparr>)],
          daily_pnl = 0, last_reset = 1\<rparr>" "''BBB''" _ 9 110 "[BuyTrade ''AAA'' 100 10 7]"]
    by simp
qed

lemma one_entry_per_key:
  "distinct (map fst al) \<Longrightarrow> k \<in> fst ` set al \<Longrightarrow> length (filter (\<lambda>e. fst e = k) al) = 1"
proof (induction al)
  case Nil
  then show ?case by simp
next
  case (Cons a al)
  show ?case
  proof (cases "fst a = k")
    case True
    with Cons.prems have "k \<notin> fst ` set al" by auto
    then have "filter (\<lambda>e. fst e = k) al = []" by (auto simp: filter_empty_conv)
    with True show ?thesis by simp
  next
    case False
    with Cons show ?thesis by auto
  qed
qed

lemma length_update_held:
  "k \<in> fst ` set al \<Longrightarrow> length (AList.update k v al) = length al"
  by (induction al) auto

text \<open>
  C5 as stated does not hold: \<open>add_position\<close> has no check for an existing position.
  With AAA held at 100 x 10, opening AAA again at 200 x 5 succeeds and the entry of AAA is
  replaced.
\<close>

theorem add_position_overwrites_counterexample:
  "map_of (positions (fst aaa_ledger)) ''AAA'' =
     Some \<lparr>entry_price = 100, quantity = 10, entry_time = 7, stop_loss = None,
           target = None, current_price = None, unrealized_pnl = None\<rparr>
   \<and> add_position 8 ''AAA'' 200 5 aaa_ledger =
       (\<lparr>positions = [(''AAA'', \<lparr>entry_price = 200, quantity = 5, entry_time = 8,
            stop_loss = None, target = None, current_price = None, unrealized_pnl = None\<rparr>)],
         daily_pnl = 0, last_reset = 1\<rparr>,
        [BuyTrade ''AAA'' 100 10 7, BuyTrade ''AAA'' 200 5 8])"
  by (simp add: aaa_ledger_def add_position_def init_ledger_def)

text \<open>
  C5, amended.  \<open>add_position\<close> never fails.  It stores the new position under the
  symbol, replacing in place the one already held there (the ledger does not grow), leaves
  every other symbol and the daily state alone, and records one BUY row.  The symbols of
  the ledger stay pairwise distinct, so a symbol is listed exactly once.
\<close>

theorem add_position_replaces:
  "map_of (positions (fst (add_position now symbol price qty (l, db)))) symbol =
     Some \<lparr>entry_price = price, quantity = qty, entry_time = now, stop_loss = None,
           target = None, current_price = None, unrealized_pnl = None\<rparr>
   \<and> (\<forall>other. other \<noteq> symbol \<longrightarrow>
         map_of (positions (fst (add_position now symbol price qty (l, db)))) other =
         map_of (positions l) other)
   \<and> (symbol \<in> fst ` set (positions l) \<longrightarrow>
         length (positions (fst (add_position now symbol price qty (l, db)))) =
         length (positions l))
   \<and> (distinct (map fst (positions l)) \<longrightarrow>
         distinct (map fst (positions (fst (add_position now symbol price qty (l, db)))))
         \<and> length (filter (\<lambda>e. fst e = symbol)
              (positions (fst (add_position now symbol price qty (l, db))))) = 1)
   \<and> daily_pnl (fst (add_position now symbol price qty (l, db))) = daily_pnl l
   \<and> last_reset (fst (add_position now symbol price qty (l, db))) = last_reset l
   \<and> snd (add_position now symbol price qty (l, db)) = db @ [BuyTrade symbol price qty now]"
proof -
  define np where "np = \<lparr>entry_price = price, quantity = qty, entry_time = now,
      stop_loss = None, target = None, current_price = None, unrealized_pnl = None\<rparr>"
  have p: "positions (fst (add_position now symbol price qty (l, db))) =
      AList.update symbol np (positions l)"
    by (simp add: add_position_def np_def)
  have d: "distinct (map fst (AList.update symbol np (positions l)))"
    if "distinct (map fst (positions l))"
    using that by (rule distinct_update)
  have k: "symbol \<in> fst ` set (AList.update symbol np (positions l))"
    by (simp add: dom_update)
  show ?thesis
    unfolding p
    using d one_entry_per_key[OF d k]
    by (simp add: update_conv' length_update_held add_position_def np_def)
qed

theorem add_position_replaces_witness:
  "''AAA'' \<in> fst ` set (positions (fst aaa_ledger))
   \<and> distinct (map fst (positions (fst aaa_ledger)))
   \<and> map_of (positions (fst (add_position 8 ''AAA'' 200 5 aaa_ledger))) ''AAA'' =
     Some \<lparr>entry_price = 200, quantity = 5, entry_time = 8, stop_loss = None,
           target = None, current_price = None, unrealized_pnl = None\<rparr>
   \<and> map_of (positions (fst (add_position 8 ''BBB'' 200 5 aaa_ledger))) ''AAA'' =
     map_of (positions (fst aaa_ledger)) ''AAA''
   \<and> length (positions (fst (add_position 8 ''AAA'' 200 5 aaa_ledger))) = 1
   \<and> length (filter (\<lambda>e. fst e = ''AAA'')
              (positions (fst (add_position 8 ''AAA'' 200 5 aaa_ledger)))) = 1"
proof -
  have h: "''AAA'' \<in> fst ` set (positions (fst aaa_ledger))"
    and d: "distinct (map fst (positions (fst aaa_ledger)))"
    and n: "length (positions (fst aaa_ledger)) = 1"
    by (simp_all add: aaa_ledger_def add_position_def init_ledger_def)
  have e: "aaa_ledger = (fst aaa_ledger, snd aaa_ledger)" by simp
  show ?thesis
    using add_position_replaces[of 8 "''AAA''" 200 5 "fst aaa_ledger" "snd aaa_ledger"]
      add_position_replaces[of 8 "''BBB''" 200 5 "fst aaa_ledger" "snd aaa_ledger"] h d n
    by simp
qed

lemma mark_positions_fst:
  "fst (mark_positions pr ps acc) =
     map (\<lambda>e. (fst e, case pr (fst e) of Some cp \<Rightarrow> marked cp (snd e) | None \<Rightarrow> snd e)) ps"
  by (induction ps arbitrary: acc)
     (auto simp: Let_def marked_def split: option.splits)

lemma mark_positions_snd:
  "snd (mark_positions pr ps acc) = acc + sum_list (map (priced_pnl pr) ps)"
  by (induction ps arbitrary: acc)
     (auto simp: Let_def priced_pnl_def split: option.splits)

lemma map_of_marked:
  "map_of (map (\<lambda>e. (fst e, f (fst e) (snd e))) ps) k = map_option (f k) (map_of ps k)"
  by (induction ps) auto

lemma total_unrealized_marked:
  assumes "\<forall>k \<in> fst ` set ps. pr k \<noteq> None"
  shows "total_unrealized
           (map (\<lambda>e. (fst e, case pr (fst e) of Some cp \<Rightarrow> marked cp (snd e) | None \<Rightarrow> snd e)) ps)
         = sum_list (map (priced_pnl pr) ps)"
  using assms
  by (induction ps)
     (auto simp: total_unrealized_def priced_pnl_def marked_def split: option.splits)

text \<open>
  C8 as stated does not hold in its last part: the returned sum only counts the positions
  priced in this call.  With AAA carrying an earlier mark of 50 and only BBB priced, the
  call returns 2 while the unrealized P&L over all open positions is 52.
\<close>

theorem update_position_values_stale_counterexample:
  "update_position_values [''BBB'' \<mapsto> 12] stale_ledger =
     (2, \<lparr>positions =
            [(''AAA'', \<lparr>entry_price = 100, quantity = 10, entry_time = 7, stop_loss = None,
                target = None, current_price = Some 105, unrealized_pnl = Some 50\<rparr>),
             (''BBB'', \<lparr>entry_price = 10, quantity = 1, entry_time = 8, stop_loss = None,
                target = None, current_price = Some 12, unrealized_pnl = Some 2\<rparr>)],
          daily_pnl = 0, last_reset = 1\<rparr>)
   \<and> total_unrealized (positions (snd (update_position_values [''BBB'' \<mapsto> 12] stale_ledger)))
       = 52"
  by (simp add: update_position_values_def stale_ledger_def Let_def total_unrealized_def)

text \<open>
  C8, amended.  \<open>update_position_values\<close> sets \<open>current_price\<close> and \<open>unrealized_pnl\<close> =
  (current price - entry price) * quantity on every held symbol that the price map
  contains, leaves the other symbols (and the order of the ledger and the daily state)
  unchanged, and returns the sum of the unrealized P&L of the symbols it priced; that is
  the aggregate over all open positions when every held symbol is priced.
\<close>

theorem update_position_values_marks:
  "(\<forall>symbol p cp. map_of (positions l) symbol = Some p \<and> prices symbol = Some cp \<longrightarrow>
       map_of (positions (snd (update_position_values prices l))) symbol =
         Some (p\<lparr>current_price := Some cp,
                 unrealized_pnl := Some ((cp - entry_price p) * real_of_int (quantity p))\<rparr>))
   \<and> (\<forall>symbol. prices symbol = None \<longrightarrow>
       map_of (positions (snd (update_position_values prices l))) symbol =
       map_of (positions l) symbol)
   \<and> map fst (positions (snd (update_position_values prices l))) = map fst (positions l)
   \<and> daily_pnl (snd (update_position_values prices l)) = daily_pnl l
   \<and> last_reset (snd (update_position_values prices l)) = last_reset l
   \<and> fst (update_position_values prices l) = sum_list (map (priced_pnl prices) (positions l))
   \<and> ((\<forall>symbol \<in> fst ` set (positions l). prices symbol \<noteq> None) \<longrightarrow>
        fst (update_position_values prices l) =
        total_unrealized (positions (snd (update_position_values prices l))))"
proof -
  let ?f = "\<lambda>k p. case prices k of Some cp \<Rightarrow> marked cp p | None \<Rightarrow> p"
  have p: "positions (snd (update_position_values prices l)) =
      map (\<lambda>e. (fst e, ?f (fst e) (snd e))) (positions l)"
    by (simp add: update_position_values_def Let_def mark_positions_fst)
  have r: "fst (update_position_values prices l) =
      sum_list (map (priced_pnl prices) (positions l))"
    by (simp add: update_position_values_def Let_def mark_positions_snd)
  have m: "map_of (positions (snd (update_position_values prices l))) k =
      map_option (?f k) (map_of (positions l) k)" for k
    unfolding p by (rule map_of_marked)
  have a: "\<forall>symbol p cp. map_of (positions l) symbol = Some p \<and> prices symbol = Some cp \<longrightarrow>
       map_of (positions (snd (update_position_values prices l))) symbol =
         Some (p\<lparr>current_price := Some cp,
                 unrealized_pnl := Some ((cp - entry_price p) * real_of_int (quantity p))\<rparr>)"
    by (simp add: m marked_def)
  have b: "\<forall>symbol. prices symbol = None \<longrightarrow>
       map_of (positions (snd (update_position_values prices l))) symbol =
       map_of (positions l) symbol"
    by (simp add: m option.map_ident)
  have c: "map fst (positions (snd (update_position_values prices l))) = map fst (positions l)"
    unfolding p by (simp add: comp_def)
  have d: "daily_pnl (snd (update_position_values prices l)) = daily_pnl l"
    "last_reset (snd (update_position_values prices l)) = last_reset l"
    by (simp_all add: update_position_values_def Let_def)
  have e: "(\<forall>symbol \<in> fst ` set (positions l). prices symbol \<noteq> None) \<longrightarrow>
        fst (update_position_values prices l) =
        total_unrealized (positions (snd (update_position_values prices l)))"
    unfolding p r using total_unrealized_marked[of "positions l" prices] by simp
  from a b c d r e show ?thesis by blast
qed

theorem update_position_values_marks_witness:
  "map_of (positions stale_ledger) ''BBB'' =
     Some \<lparr>entry_price = 10, quantity = 1, entry_time = 8, stop_loss = None,
           target = None, current_price = None, unrealized_pnl = None\<rparr>
   \<and> [''BBB'' \<mapsto> (12::real)] ''BBB'' = Some 12 \<and> [''BBB'' \<mapsto> (12::real)] ''AAA'' = None
   \<and> map_of (positions (snd (update_position_values [''BBB'' \<mapsto> 12] stale_ledger))) ''BBB'' =
     Some \<lparr>entry_price = 10, quantity = 1, entry_time = 8, stop_loss = None,
           target = None, current_price = Some 12, unrealized_pnl = Some 2\<rparr>
   \<and> map_of (positions (snd (update_position_values [''BBB'' \<mapsto> 12] stale_ledger))) ''AAA'' =
     map_of (positions stale_ledger) ''AAA''
   \<and> fst (update_position_values [''BBB'' \<mapsto> 12] stale_ledger) = 2
   \<and> map fst (positions stale_ledger) = [''AAA'', ''BBB'']
   \<and> [''AAA'' \<mapsto> (105::real), ''BBB'' \<mapsto> 12] ''AAA'' = Some 105
   \<and> [''AAA'' \<mapsto> (105::real), ''BBB'' \<mapsto> 12] ''BBB'' = Some 12
   \<and> fst (update_position_values [''AAA'' \<mapsto> 105, ''BBB'' \<mapsto> 12] stale_ledger) =
       total_unrealized (positions (snd (update_position_values
          [''AAA'' \<mapsto> 105, ''BBB'' \<mapsto> 12] stale_ledger)))"
proof -
  have b: "map_of (positions stale_ledger) ''BBB'' =
     Some \<lparr>entry_price = 10, quantity = 1, entry_time = 8, stop_loss = None,
           target = None, current_price = None, unrealized_pnl = None\<rparr>"
    by (simp add: stale_ledger_def)
  have s: "sum_list (map (priced_pnl [''BBB'' \<mapsto> 12]) (positions stale_ledger)) = 2"
    by (simp add: stale_ledger_def priced_pnl_def)
  have c: "\<forall>symbol \<in> fst ` set (positions stale_ledger).
        [''AAA'' \<mapsto> (105::real), ''BBB'' \<mapsto> 12] symbol \<noteq> None"
    by (simp add: stale_ledger_def)
  note t1 = update_position_values_marks[of stale_ledger "[''BBB'' \<mapsto> 12]"]
  note t2 = update_position_values_marks[of stale_ledger "[''AAA'' \<mapsto> 105, ''BBB'' \<mapsto> 12]"]
  have m: "map_of (positions (snd (update_position_values [''BBB'' \<mapsto> 12] stale_ledger))) ''BBB'' =
     Some \<lparr>entry_price = 10, quantity = 1, entry_time = 8, stop_loss = None,
           target = None, current_price = Some 12, unrealized_pnl = Some 2\<rparr>"
    using t1[THEN conjunct1, rule_format, of "''BBB''" _ 12] b by simp
  have u: "map_of (positions (snd (update_position_values [''BBB'' \<mapsto> 12] stale_ledger))) ''AAA'' =
     map_of (positions stale_ledger) ''AAA''"
    using t1[THEN conjunct2, THEN conjunct1, rule_format, of "''AAA''"] by simp
  have r: "fst (update_position_values [''BBB'' \<mapsto> 12] stale_ledger) = 2"
    using t1 s by simp
  have e: "fst (update_position_values [''AAA'' \<mapsto> 105, ''BBB'' \<mapsto> 12] stale_ledger) =
       total_unrealized (positions (snd (update_position_values
          [''AAA'' \<mapsto> 105, ''BBB'' \<mapsto> 12] stale_ledger)))"
    using t2 c by blast
  have k: "map fst (positions stale_ledger) = [''AAA'', ''BBB'']"
    by (simp add: stale_ledger_def)
  show ?thesis
    by (intro conjI; (rule b | rule m | rule u | rule r | rule k | rule e | simp))
qed

text \<open>
  C9 as stated does not hold: \<open>can_trade\<close> keeps no memory of having refused.  With a
  daily P&L of -1500 on a portfolio of 100000 it refuses; after a close of AAA (100 x 10)
  at 200, which realizes 1000, it allows trading again on the same day.
\<close>

theorem can_trade_recovers_counterexample:
  "\<not> fst (can_trade default_settings 1 100000 tripped_ledger)
   \<and> snd (can_trade default_settings 1 100000 tripped_ledger) = tripped_ledger
   \<and> fst (close_position 9 ''AAA'' 200 (tripped_ledger, [])) = 1000
   \<and> fst (can_trade default_settings 1 100000
            (fst (snd (close_position 9 ''AAA'' 200 (tripped_ledger, [])))))"
  by (simp add: can_trade_def reset_daily_metrics_def default_settings_def tripped_ledger_def
      close_position_def Let_def)

lemma can_trade_same_day:
  "today \<le> last_reset l \<Longrightarrow>
   can_trade cfg today pv l = (daily_pnl l > - (pv * MAX_DAILY_LOSS_PERCENT cfg / 100), l)"
  by (simp add: can_trade_def reset_daily_metrics_def Let_def)

lemma can_trade_last_reset:
  "today \<le> last_reset (snd (can_trade cfg today pv l))"
  by (simp add: can_trade_def reset_daily_metrics_def Let_def)

lemma close_position_daily:
  "map_of (positions l) symbol = Some p \<Longrightarrow>
   fst (snd (close_position now symbol x (l, db))) =
     l\<lparr>daily_pnl := daily_pnl l + (x - entry_price p) * real_of_int (quantity p),
       positions := AList.delete symbol (positions l)\<rparr>"
  by (simp add: close_position_def Let_def)

text \<open>
  C9, amended.  After \<open>can_trade\<close> has returned false on a day, a further call on that
  day with the same portfolio value returns false again as long as \<open>daily_pnl\<close> is where
  it was; after a \<open>close_position\<close> on that day it returns true exactly when the new
  \<open>daily_pnl\<close> is above the threshold, so it stays false after a close at or below the
  entry price and is re-enabled by a sufficiently profitable one; once the date has passed
  the last reset, \<open>daily_pnl\<close> is reset to 0 and trading is allowed for a positive limit.
\<close>

theorem can_trade_no_latch:
  assumes tripped: "\<not> fst (can_trade cfg today pv l)"
  defines "l1 \<equiv> snd (can_trade cfg today pv l)"
  shows "(\<not> fst (can_trade cfg today pv l1) \<and> snd (can_trade cfg today pv l1) = l1)
    \<and> (map_of (positions l1) symbol = Some p \<longrightarrow>
           fst (can_trade cfg today pv (fst (snd (close_position now symbol x (l1, db))))) =
             (daily_pnl l1 + (x - entry_price p) * real_of_int (quantity p)
                > - (pv * MAX_DAILY_LOSS_PERCENT cfg / 100)))
    \<and> (map_of (positions l1) symbol = Some p \<and> x \<le> entry_price p \<and> 0 \<le> quantity p \<longrightarrow>
           \<not> fst (can_trade cfg today pv (fst (snd (close_position now symbol x (l1, db))))))
    \<and> (last_reset l1 < tomorrow \<longrightarrow>
           fst (can_trade cfg tomorrow pv l1) = (0 < pv * MAX_DAILY_LOSS_PERCENT cfg)
           \<and> daily_pnl (snd (can_trade cfg tomorrow pv l1)) = 0)"
proof -
  have day: "today \<le> last_reset l1"
    unfolding l1_def by (rule can_trade_last_reset)
  have low: "\<not> daily_pnl l1 > - (pv * MAX_DAILY_LOSS_PERCENT cfg / 100)"
    using tripped unfolding l1_def by (simp add: can_trade_def Let_def)
  have a: "\<not> fst (can_trade cfg today pv l1) \<and> snd (can_trade cfg today pv l1) = l1"
    using low by (simp add: can_trade_same_day[OF day])
  have b: "fst (can_trade cfg today pv (fst (snd (close_position now symbol x (l1, db))))) =
             (daily_pnl l1 + (x - entry_price p) * real_of_int (quantity p)
                > - (pv * MAX_DAILY_LOSS_PERCENT cfg / 100))"
    if h: "map_of (positions l1) symbol = Some p"
  proof -
    have "today \<le> last_reset (fst (snd (close_position now symbol x (l1, db))))"
      using day by (simp add: close_position_daily[OF h])
    from can_trade_same_day[OF this] show ?thesis
      by (simp add: close_position_daily[OF h])
  qed
  have c: "\<not> fst (can_trade cfg today pv (fst (snd (close_position now symbol x (l1, db)))))"
    if h: "map_of (positions l1) symbol = Some p \<and> x \<le> entry_price p \<and> 0 \<le> quantity p"
  proof -
    from h have "(x - entry_price p) * real_of_int (quantity p) \<le> 0"
      by (simp add: mult_nonpos_nonneg)
    with low b h show ?thesis by simp
  qed
  have d: "fst (can_trade cfg tomorrow pv l1) = (0 < pv * MAX_DAILY_LOSS_PERCENT cfg)
           \<and> daily_pnl (snd (can_trade cfg tomorrow pv l1)) = 0"
    if "last_reset l1 < tomorrow"
    using that by (simp add: can_trade_def reset_daily_metrics_def Let_def)
  from a b c d show ?thesis by blast
qed

theorem can_trade_no_latch_witness:
  "\<not> fst (can_trade default_settings 1 100000 tripped_ledger)
   \<and> map_of (positions tripped_ledger) ''AAA'' =
       Some \<lparr>entry_price = 100, quantity = 10, entry_time = 7, stop_loss = None,
             target = None, current_price = None, unrealized_pnl = None\<rparr>
   \<and> \<not> fst (can_trade default_settings 1 100000
              (fst (snd (close_position 9 ''AAA'' 90 (tripped_ledger, [])))))
   \<and> fst (can_trade default_settings 1 100000
            (fst (snd (close_position 9 ''AAA'' 200 (tripped_ledger, [])))))
   \<and> fst (can_trade default_settings 2 100000 tripped_ledger)"
proof -
  have t: "\<not> fst (can_trade default_settings 1 100000 tripped_ledger)"
    and s: "snd (can_trade default_settings 1 100000 tripped_ledger) = tripped_ledger"
    by (simp_all add: can_trade_def reset_daily_metrics_def default_settings_def
        tripped_ledger_def Let_def)
  have m: "map_of (positions tripped_ledger) ''AAA'' =
       Some \<lparr>entry_price = 100, quantity = 10, entry_time = 7, stop_loss = None,
             target = None, current_price = None, unrealized_pnl = None\<rparr>"
    by (simp add: tripped_ledger_def)
  have v: "daily_pnl tripped_ledger = - 1500" "last_reset tripped_ledger = 1"
    "MAX_DAILY_LOSS_PERCENT default_settings = 1"
    by (simp_all add: tripped_ledger_def default_settings_def)
  note n = can_trade_no_latch[OF t, unfolded s]
  have lose: "\<not> fst (can_trade default_settings 1 100000
              (fst (snd (close_position 9 ''AAA'' 90 (tripped_ledger, [])))))"
    using n[of "''AAA''" "\<lparr>entry_price = 100, quantity = 10, entry_time = 7, stop_loss = None,
             target = None, current_price = None, unrealized_pnl = None\<rparr>" 9 90 "[]" 2] m v by simp
  have win: "fst (can_trade default_settings 1 100000
            (fst (snd (close_position 9 ''AAA'' 200 (tripped_ledger, [])))))"
    using n[of "''AAA''" "\<lparr>entry_price = 100, quantity = 10, entry_time = 7, stop_loss = None,
             target = None, current_price = None, unrealized_pnl = None\<rparr>" 9 200 "[]" 2] m v by simp
  have next_day: "fst (can_trade default_settings 2 100000 tripped_ledger)"
    using n[of "''AAA''" "\<lparr>entry_price = 100, quantity = 10, entry_time = 7, stop_loss = None,
             target = None, current_price = None, unrealized_pnl = None\<rparr>" 9 200 "[]" 2] v by simp
  show ?thesis
    by (intro conjI; (rule t | rule m | rule lose | rule win | rule next_day))
qed

section \<open>Results about the trader\<close>

text \<open>
  The third check of the risk gate asks the ledger for a total exposure that the ledger
  cannot give: the lookup raises, the \<open>except\<close> clause answers False.
\<close>

lemma check_risk_limits_never_approves:
  "\<not> fst (fst (check_risk_limits cfg today t trade_value l))"
  by (simp add: check_risk_limits_def Let_def get_total_exposure_def)

lemma check_risk_limits_ledger:
  "snd (check_risk_limits cfg today t trade_value l) = l
   \<or> snd (check_risk_limits cfg today t trade_value l) = reset_daily_metrics today l"
  by (simp add: check_risk_limits_def Let_def get_total_exposure_def can_trade_def)

lemma reset_daily_metrics_positions:
  "positions (reset_daily_metrics today l) = positions l"
  by (simp add: reset_daily_metrics_def)

lemma reset_daily_metrics_same_day:
  "today \<le> last_reset l \<Longrightarrow> reset_daily_metrics today l = l"
  by (simp add: reset_daily_metrics_def)

text \<open>
  C4 as stated does not hold: a refusal can leave a changed ledger.  With 4500 already
  exposed, a trade of 1000 exceeds the cap of 5000 and is refused; the gate has called
  \<open>can_trade\<close> on a new day before, so yesterday's \<open>daily_pnl\<close> of -200 is now 0 and
  \<open>last_reset\<close> has moved.
\<close>

theorem check_risk_limits_resets_counterexample:
  "spec_total_exposure exposed_ledger + 1000 >
     portfolio_value trader0 * MAX_POSITION_SIZE_PERCENT default_settings / 100
   \<and> check_risk_limits default_settings 2 trader0 1000 exposed_ledger =
       ((False, [RiskCheckFailed (AttributeError ''get_total_exposure'')]),
        exposed_ledger\<lparr>daily_pnl := 0, last_reset := 2\<rparr>)
   \<and> daily_pnl exposed_ledger = - 200 \<and> last_reset exposed_ledger = 1
   \<and> snd (check_risk_limits default_settings 2 trader0 1000 exposed_ledger) \<noteq> exposed_ledger"
  by (simp add: check_risk_limits_def Let_def get_total_exposure_def can_trade_def
      reset_daily_metrics_def exposed_ledger_def trader0_def initialize_def new_trader_def
      default_settings_def spec_total_exposure_def)

text \<open>
  C4, amended.  The gate refuses with \<open>TradeValueExceedsMax\<close> and an untouched ledger
  when the trade value exceeds portfolio value times risk per trade; otherwise it refuses
  with \<open>DailyLossLimitReached\<close> when \<open>can_trade\<close> is false, the ledger being as
  \<open>can_trade\<close> left it.  It never changes a position; the ledger it leaves is the old one
  or the old one after the daily reset, and the old one whenever the date has not passed
  the last reset.
\<close>

theorem check_risk_limits_rejects:
  "(trade_value > portfolio_value t * risk_per_trade t \<longrightarrow>
      check_risk_limits cfg today t trade_value l =
        ((False, [TradeValueExceedsMax trade_value (portfolio_value t * risk_per_trade t)]), l))
   \<and> (trade_value \<le> portfolio_value t * risk_per_trade t
        \<and> \<not> fst (can_trade cfg today (portfolio_value t) l) \<longrightarrow>
      check_risk_limits cfg today t trade_value l =
        ((False, [DailyLossLimitReached]), reset_daily_metrics today l))
   \<and> positions (snd (check_risk_limits cfg today t trade_value l)) = positions l
   \<and> (snd (check_risk_limits cfg today t trade_value l) = l
       \<or> snd (check_risk_limits cfg today t trade_value l) = reset_daily_metrics today l)
   \<and> (today \<le> last_reset l \<longrightarrow> snd (check_risk_limits cfg today t trade_value l) = l)"
proof (intro conjI impI)
  assume "trade_value > portfolio_value t * risk_per_trade t"
  then show "check_risk_limits cfg today t trade_value l =
        ((False, [TradeValueExceedsMax trade_value (portfolio_value t * risk_per_trade t)]), l)"
    by (simp add: check_risk_limits_def Let_def)
next
  assume "trade_value \<le> portfolio_value t * risk_per_trade t
        \<and> \<not> fst (can_trade cfg today (portfolio_value t) l)"
  then show "check_risk_limits cfg today t trade_value l =
        ((False, [DailyLossLimitReached]), reset_daily_metrics today l)"
    by (simp add: check_risk_limits_def Let_def can_trade_def)
next
  show "positions (snd (check_risk_limits cfg today t trade_value l)) = positions l"
    using check_risk_limits_ledger[of cfg today t trade_value l]
    by (auto simp: reset_daily_metrics_positions)
  show "snd (check_risk_limits cfg today t trade_value l) = l
       \<or> snd (check_risk_limits cfg today t trade_value l) = reset_daily_metrics today l"
    by (rule check_risk_limits_ledger)
next
  assume "today \<le> last_reset l"
  then show "snd (check_risk_limits cfg today t trade_value l) = l"
    using check_risk_limits_ledger[of cfg today t trade_value l]
    by (auto simp: reset_daily_metrics_same_day)
qed

theorem check_risk_limits_rejects_witness:
  "(3000::real) > portfolio_value trader0 * risk_per_trade trader0
   \<and> check_risk_limits default_settings 2 trader0 3000 exposed_ledger =
       ((False, [TradeValueExceedsMax 3000 2000]), exposed_ledger)
   \<and> (1000::real) \<le> portfolio_value trader0 * risk_per_trade trader0
   \<and> \<not> fst (can_trade default_settings 1 (portfolio_value trader0) tripped_ledger)
   \<and> check_risk_limits default_settings 1 trader0 1000 tripped_ledger =
       ((False, [DailyLossLimitReached]), tripped_ledger)
   \<and> 1 \<le> last_reset exposed_ledger
   \<and> snd (check_risk_limits default_settings 1 trader0 1000 exposed_ledger) = exposed_ledger"
proof -
  have pv: "portfolio_value trader0 = 100000" "risk_per_trade trader0 = 2 / 100"
    by (simp_all add: trader0_def initialize_def new_trader_def)
  have big: "(3000::real) > portfolio_value trader0 * risk_per_trade trader0"
    and small: "(1000::real) \<le> portfolio_value trader0 * risk_per_trade trader0"
    by (simp_all add: pv)
  have trip: "\<not> fst (can_trade default_settings 1 (portfolio_value trader0) tripped_ledger)"
    by (simp add: can_trade_def reset_daily_metrics_def default_settings_def
        tripped_ledger_def Let_def pv)
  have r: "reset_daily_metrics 1 tripped_ledger = tripped_ledger"
    by (simp add: reset_daily_metrics_def tripped_ledger_def)
  have day: "1 \<le> last_reset exposed_ledger" by (simp add: exposed_ledger_def)
  have a: "check_risk_limits default_settings 2 trader0 3000 exposed_ledger =
       ((False, [TradeValueExceedsMax 3000 2000]), exposed_ledger)"
    using check_risk_limits_rejects[where trade_value = 3000 and t = trader0 and cfg = default_settings
        and today = 2 and l = exposed_ledger] big
    by (simp add: pv)
  have b: "check_risk_limits default_settings 1 trader0 1000 tripped_ledger =
       ((False, [DailyLossLimitReached]), tripped_ledger)"
    using check_risk_limits_rejects[where trade_value = 1000 and t = trader0 and cfg = default_settings
        and today = 1 and l = tripped_ledger]
      small trip r
    by simp
  have c: "snd (check_risk_limits default_settings 1 trader0 1000 exposed_ledger) =
      exposed_ledger"
    using check_risk_limits_rejects[where trade_value = 1000 and t = trader0 and cfg = default_settings
        and today = 1 and l = exposed_ledger] day
    by simp
  show ?thesis
    by (intro conjI; (rule big | rule small | rule trip | rule a | rule b | rule c | rule day))
qed

text \<open>
  A SELL never passes \<open>_validate_trade\<close> (its position lookup raises), so no exit of the
  stop and target watcher reaches the venue; no step of the watcher changes the state.
\<close>

lemma validate_trade_sell: "\<not> validate_trade l symbol ''SELL'' qty"
  by (simp add: validate_trade_def get_position_def)

lemma execute_trade_sell:
  "snd (execute_trade cfg today now v t symbol ''SELL'' qty s) = s
   \<and> fst (execute_trade cfg today now v t symbol ''SELL'' qty s) \<noteq> None"
  by (simp add: execute_trade_def validate_trade_sell)

lemma trail_one_state: "snd (trail_one cfg today now v t item s) = s"
proof -
  define raised where "raised =
    (if get_stock_price v (fst item) > entry_price (snd item) then
       (let new_stop = get_stock_price v (fst item) * (1 - trailing_sl_percent t)
        in case stop_loss_item (snd item) of
             Inl e \<Rightarrow> Inl e
           | Inr sl \<Rightarrow>
               (if new_stop > sl then update_stop_loss (fst item) new_stop (fst s)
                else Inr (fst s)))
     else Inr (fst s))"
  have r: "raised = Inr l1 \<Longrightarrow> l1 = fst s" for l1
    unfolding raised_def
    by (auto simp: Let_def update_stop_loss_def split: if_splits sum.splits)
  have t1: "trail_one cfg today now v t item s =
    (case raised of
       Inl e \<Rightarrow> (Some e, s)
     | Inr l1 \<Rightarrow>
         (case exit_hit (get_stock_price v (fst item)) (snd item) of
            Inl e \<Rightarrow> (Some e, (l1, snd s))
          | Inr hit \<Rightarrow>
              (if hit then
                 execute_trade cfg today now v t (fst item) ''SELL'' (quantity (snd item))
                   (l1, snd s)
               else (None, (l1, snd s)))))"
    unfolding trail_one_def raised_def Let_def ..
  show ?thesis
  proof (cases raised)
    case (Inl e)
    then show ?thesis by (simp add: t1)
  next
    case (Inr l1)
    with r have "l1 = fst s" by simp
    with Inr show ?thesis
      by (simp add: t1 execute_trade_sell split: sum.splits)
  qed
qed

lemma trailing_loop_state: "snd (trailing_loop cfg today now v t items n s) = s"
proof (induction items arbitrary: s)
  case Nil
  show ?case by simp
next
  case (Cons item items)
  obtain e s' where p: "trail_one cfg today now v t item s = (e, s')"
    by (cases "trail_one cfg today now v t item s") auto
  with trail_one_state[of cfg today now v t item s] have s': "s' = s" by simp
  show ?case using p s' Cons.IH[of s] by (cases e) simp_all
qed

text \<open>
  C7 on the code.  \<open>update_trailing_stops\<close> returns the state it was given, whatever the
  prices: no stop is ever written.  For a position opened by \<open>add_position\<close> at 100 and a
  price of 120 (candidate stop 117.6) the watcher ends on the missing key \<open>stop_loss\<close>;
  for a position that carries a stop of 98 it ends on the missing method
  \<open>update_stop_loss\<close> and the stop is still 98.
\<close>

theorem trailing_stop_never_raised:
  "snd (update_trailing_stops cfg today now v t s) = s
   \<and> 120 * (1 - trailing_sl_percent trader0) = 1176 / 10
   \<and> update_trailing_stops default_settings 1 9 (quote 120) trader0 aaa_ledger =
       ([KeyError ''stop_loss''], aaa_ledger)
   \<and> map_option stop_loss (map_of (positions (fst aaa_ledger)) ''AAA'') = Some None
   \<and> update_trailing_stops default_settings 1 9 (quote 120) trader0 (far_target_ledger, []) =
       ([AttributeError ''update_stop_loss''], (far_target_ledger, []))
   \<and> map_option stop_loss (map_of (positions far_target_ledger) ''AAA'') = Some (Some 98)"
proof -
  have g: "snd (update_trailing_stops cfg today now v t s) = s"
    by (simp add: update_trailing_stops_def Let_def trailing_loop_state)
  have tr: "trailing_sl_percent trader0 = 2 / 100" "is_active trader0"
    by (simp_all add: trader0_def initialize_def new_trader_def)
  have a: "aaa_ledger =
     (\<lparr>positions = [(''AAA'', \<lparr>entry_price = 100, quantity = 10, entry_time = 7,
           stop_loss = None, target = None, current_price = None, unrealized_pnl = None\<rparr>)],
       daily_pnl = 0, last_reset = 1\<rparr>, [BuyTrade ''AAA'' 100 10 7])"
    by (simp add: aaa_ledger_def add_position_def init_ledger_def)
  have e1: "update_trailing_stops default_settings 1 9 (quote 120) trader0 aaa_ledger =
       ([KeyError ''stop_loss''], aaa_ledger)"
    unfolding a
    by (simp add: update_trailing_stops_def get_active_positions_def trail_one_def Let_def
        quote_def stop_loss_item_def)
  have e2: "update_trailing_stops default_settings 1 9 (quote 120) trader0
       (far_target_ledger, []) =
       ([AttributeError ''update_stop_loss''], (far_target_ledger, []))"
    by (simp add: update_trailing_stops_def get_active_positions_def trail_one_def Let_def
        quote_def stop_loss_item_def far_target_ledger_def tr update_stop_loss_def)
  show ?thesis
    using g e1 e2 by (simp add: tr a far_target_ledger_def)
qed

end
